theory Spec2Isabelle
  imports Complex_Main "HOL-Library.Word" "HOL-Library.Log_Nat"
begin

unbundle bit_operations_syntax

section \<open>Machine types\<close>

text \<open>
  \<open>size_t\<close>, device addresses and stream handles are 64-bit unsigned values whose
  arithmetic wraps; \<open>int64_t\<close> statistics are 64-bit values read in two's complement
  (\<open>\<le>s\<close>, \<open><s\<close>).
\<close>

type_synonym size_t = "64 word"
type_synonym int64_t = "64 word"
type_synonym devptr = "64 word"
type_synonym aclrtStream = "64 word"

definition kMinBlockSize :: size_t where "kMinBlockSize = 512"
definition kSmallSize :: size_t where "kSmallSize = 1048576"
definition kSmallBuffer :: size_t where "kSmallBuffer = 2097152"
definition kLargeBuffer :: size_t where "kLargeBuffer = 20971520"
definition kMinLargeAlloc :: size_t where "kMinLargeAlloc = 10485760"
definition kRoundLarge :: size_t where "kRoundLarge = 2097152"

lemmas k_defs = kMinBlockSize_def kSmallSize_def kSmallBuffer_def kLargeBuffer_def
  kMinLargeAlloc_def kRoundLarge_def

section \<open>Size classes\<close>

datatype pool_id = SmallBlocks | LargeBlocks

definition is_small :: "pool_id \<Rightarrow> bool" where
  "is_small p = (p = SmallBlocks)"

definition round_size :: "size_t \<Rightarrow> size_t" where
  "round_size sz =
     (let size' = sz + 32 in
      if size' < kMinBlockSize then kMinBlockSize
      else kMinBlockSize * ((size' + kMinBlockSize - 1) div kMinBlockSize))"

definition get_pool :: "size_t \<Rightarrow> pool_id" where
  "get_pool sz = (if sz \<le> kSmallSize then SmallBlocks else LargeBlocks)"

definition get_allocation_size :: "size_t \<Rightarrow> size_t" where
  "get_allocation_size sz =
     (if sz \<le> kSmallSize then kSmallBuffer
      else if sz < kMinLargeAlloc then kLargeBuffer
      else kRoundLarge * ((sz + kRoundLarge - 1) div kRoundLarge))"

section \<open>Statistics\<close>

text \<open>
  \<open>Stat\<close>, \<open>StatType\<close> and \<open>DeviceStats\<close> are declared in the allocator's header; their
  fields are the ones the allocator reads and writes. A \<open>StatArray\<close> holds one \<open>Stat\<close> per
  \<open>StatType\<close>, a \<open>StatTypes\<close> one flag per \<open>StatType\<close>.
\<close>

record Stat =
  current :: int64_t
  peak :: int64_t
  allocated :: int64_t
  freed :: int64_t

datatype StatType = AGGREGATE | SMALL_POOL | LARGE_POOL

type_synonym StatArray = "StatType \<Rightarrow> Stat"
type_synonym StatTypes = "StatType \<Rightarrow> bool"

record DeviceStats =
  allocation :: StatArray
  segment :: StatArray
  active :: StatArray
  inactive_split :: StatArray
  allocated_bytes :: StatArray
  reserved_bytes :: StatArray
  active_bytes :: StatArray
  inactive_split_bytes :: StatArray
  num_alloc_retries :: int64_t
  num_ooms :: int64_t
  oversize_allocations :: Stat
  oversize_segments :: Stat
  max_split_size :: int64_t

definition update_stat :: "Stat \<Rightarrow> int64_t \<Rightarrow> Stat" where
  "update_stat stat amount =
     (let s1 = stat\<lparr>current := current stat + amount\<rparr>;
          s2 = s1\<lparr>peak := (if current s1 <s peak s1 then peak s1 else current s1)\<rparr>;
          s3 = (if 0 <s amount then s2\<lparr>allocated := allocated s2 + amount\<rparr> else s2)
      in if amount <s 0 then s3\<lparr>freed := freed s3 + (- amount)\<rparr> else s3)"



definition all_stat_types :: "StatType list" where
  "all_stat_types = [AGGREGATE, SMALL_POOL, LARGE_POOL]"

definition for_each_selected_stat_type :: "StatTypes \<Rightarrow> (StatType \<Rightarrow> 'a \<Rightarrow> 'a) \<Rightarrow> 'a \<Rightarrow> 'a" where
  "for_each_selected_stat_type stat_types f x =
     fold (\<lambda>stat_type acc. if stat_types stat_type then f stat_type acc else acc) all_stat_types x"

definition update_stat_array :: "StatArray \<Rightarrow> int64_t \<Rightarrow> StatTypes \<Rightarrow> StatArray" where
  "update_stat_array stat_array amount stat_types =
     for_each_selected_stat_type stat_types
       (\<lambda>stat_type arr. arr(stat_type := update_stat (arr stat_type) amount)) stat_array"

definition get_stat_type_for_pool :: "pool_id \<Rightarrow> StatType" where
  "get_stat_type_for_pool p = (if is_small p then SMALL_POOL else LARGE_POOL)"

text \<open>\<open>StatTypes stat_types = {false}\<close> followed by the two assignments every caller makes.\<close>

definition no_stat_types :: StatTypes where
  "no_stat_types = (\<lambda>_. False)"

definition select_stat_types :: "StatTypes \<Rightarrow> pool_id \<Rightarrow> StatTypes" where
  "select_stat_types base p = (base(AGGREGATE := True))(get_stat_type_for_pool p := True)"

section \<open>Blocks and block pools\<close>

text \<open>
  A \<open>Block*\<close> is the index of a \<open>Block\<close> object in the heap (\<open>None\<close> is the null
  pointer). \<open>delete\<close> leaves the heap entry behind: the allocator never reads a block it
  has deleted. \<open>c10_npu::NPUStream\<close> is a stream handle together with its device index.
\<close>

datatype NPUStream = NPUStream (device_index: int) (stream_handle: aclrtStream)

record Block =
  device :: int
  stream :: aclrtStream
  stream_uses :: "NPUStream list"
  size_b :: size_t
  pool :: pool_id
  ptr :: devptr
  allocated_b :: bool
  prev_b :: "nat option"
  next_b :: "nat option"
  event_count :: int
  gc_count :: int

definition new_Block :: "int \<Rightarrow> aclrtStream \<Rightarrow> size_t \<Rightarrow> pool_id \<Rightarrow> devptr \<Rightarrow> Block" where
  "new_Block dev strm sz p addr =
     \<lparr>device = dev, stream = strm, stream_uses = [], size_b = sz, pool = p, ptr = addr,
      allocated_b = False, prev_b = None, next_b = None, event_count = 0, gc_count = 0\<rparr>"

text \<open>
  The constructor for search keys leaves \<open>pool\<close> and \<open>ptr\<close> null; a key's pool is never
  read, so the key carries the pool of the request that builds it.
\<close>

definition key_Block :: "int \<Rightarrow> aclrtStream \<Rightarrow> size_t \<Rightarrow> pool_id \<Rightarrow> Block" where
  "key_Block dev strm sz p = new_Block dev strm sz p 0"

definition is_split :: "Block \<Rightarrow> bool" where
  "is_split b = (prev_b b \<noteq> None \<or> next_b b \<noteq> None)"

definition BlockComparator :: "Block \<Rightarrow> Block \<Rightarrow> bool" where
  "BlockComparator a b =
     (if stream a \<noteq> stream b then stream a < stream b
      else if size_b a \<noteq> size_b b then size_b a < size_b b
      else ptr a < ptr b)"

text \<open>
  \<open>std::set<Block*, Comparison>\<close> as the list of its elements in iteration order. An
  iterator is a position in that list, \<open>end()\<close> the length of the list.
\<close>

fun set_insert :: "(nat \<Rightarrow> Block) \<Rightarrow> nat \<Rightarrow> nat list \<Rightarrow> nat list" where
  "set_insert h b [] = [b]"
| "set_insert h b (a # xs) =
     (if BlockComparator (h b) (h a) then b # a # xs
      else if BlockComparator (h a) (h b) then a # set_insert h b xs
      else a # xs)"

definition set_erase :: "(nat \<Rightarrow> Block) \<Rightarrow> nat \<Rightarrow> nat list \<Rightarrow> nat list" where
  "set_erase h b xs = filter (\<lambda>a. BlockComparator (h a) (h b) \<or> BlockComparator (h b) (h a)) xs"

definition erase_at :: "nat \<Rightarrow> 'a list \<Rightarrow> 'a list" where
  "erase_at i xs = take i xs @ drop (Suc i) xs"

definition lower_bound :: "(nat \<Rightarrow> Block) \<Rightarrow> nat list \<Rightarrow> Block \<Rightarrow> nat" where
  "lower_bound h xs k = length (takeWhile (\<lambda>a. BlockComparator (h a) k) xs)"

section \<open>The device and the configuration\<close>

datatype aclError = ACL_ERROR_NONE | ACL_ERROR_RT_MEMORY_ALLOCATION | ACL_ERROR_OTHER int

datatype driver_call =
    AclrtMallocAlign32 size_t
  | AclrtFree devptr
  | NpuSynchronizeDevice bool
  | EventRecord NPUStream
  | EventQuery nat
  | AclrtSynchronizeEvent nat
  | FreeMemoryCallbacks

text \<open>
  What the allocator cannot decide itself, as functions of the number of driver calls
  made so far: the outcome of a device allocation of a given size, whether a recorded
  event has completed, whether the registered free-memory callbacks freed anything, and
  the value read from a \<open>StatTypes\<close> entry that was never written. The other driver
  calls are taken to succeed.
\<close>

record driver =
  malloc_result :: "nat \<Rightarrow> size_t \<Rightarrow> aclError \<times> devptr"
  query_result :: "nat \<Rightarrow> nat \<Rightarrow> bool"
  callbacks_result :: "nat \<Rightarrow> bool"
  indeterminate :: "nat \<Rightarrow> StatType \<Rightarrow> bool"

text \<open>
  \<open>CachingAllocatorConfig\<close>. The threshold is a \<open>double\<close>; a double is the real number it
  denotes.
\<close>

record CachingAllocatorConfig =
  m_max_split_size :: size_t
  m_garbage_collection_threshold :: real

definition size_t_max :: size_t where
  "size_t_max = - 1"

definition default_config :: CachingAllocatorConfig where
  "default_config = \<lparr>m_max_split_size = size_t_max, m_garbage_collection_threshold = 0\<rparr>"

text \<open>
  Arithmetic in \<open>double\<close>. \<open>to_double\<close> rounds a real number to the nearest binary64 value,
  ties to the even significand; it stands wherever the code converts an integer to
  \<open>double\<close> or multiplies two doubles. \<open>ilog2 x\<close> is the binary exponent of a positive
  \<open>x\<close>, the \<open>e\<close> with \<open>2^e \<le> x < 2^(e+1)\<close>; below the normal range the spacing stays at
  \<open>2^(-1074)\<close>. Overflow to infinity is left out: a threshold lies below one and a
  \<open>size_t\<close> below \<open>2^64\<close>. \<open>static_cast<size_t>\<close> of a non-negative double in range is its
  floor.
\<close>

definition ilog2 :: "real \<Rightarrow> int" where
  "ilog2 x = (if 1 \<le> x then bitlen \<lfloor>x\<rfloor> - 1 else - bitlen (\<lceil>1 / x\<rceil> - 1))"

definition round_half_even :: "real \<Rightarrow> int" where
  "round_half_even x =
     (let n = \<lfloor>x\<rfloor>
      in if x - of_int n < 1 / 2 then n
         else if 1 / 2 < x - of_int n then n + 1
         else if even n then n else n + 1)"

definition to_double :: "real \<Rightarrow> real" where
  "to_double x =
     (if x = 0 then 0
      else let e = max (ilog2 \<bar>x\<bar>) (- 1022);
               ulp = 2 powi (e - 52)
           in of_int (round_half_even (x / ulp)) * ulp)"

definition cast_size_t :: "real \<Rightarrow> size_t" where
  "cast_size_t x = word_of_nat (nat \<lfloor>x\<rfloor>)"

datatype error =
    OutOfMemory
  | DriverError aclError
  | AssertFailed
  | ParseError
  | InvalidDevicePointer devptr
  | NoSuchDevice int
  | CallbackMissing
  | KernelFailure

text \<open>
  The numeric part of \<open>parseMaxSplitSize\<close>: \<open>val1\<close> is the \<open>int\<close> that \<open>stoi\<close> returned,
  converted to \<open>size_t\<close>.
\<close>

definition parseMaxSplitSize :: "32 word \<Rightarrow> error + size_t" where
  "parseMaxSplitSize v =
     (let val1 = (scast v :: size_t) in
      if \<not> (val1 > kLargeBuffer div (1024 * 1024)) then Inl ParseError
      else
        let val2 = max val1 (kLargeBuffer div (1024 * 1024));
            val3 = min val2 (size_t_max div (1024 * 1024))
        in Inr (val3 * 1024 * 1024))"

section \<open>The per-device allocator: state\<close>

text \<open>
  The heap of \<open>Block\<close> objects and the record of driver calls belong to the process;
  a \<open>DeviceCachingAllocator\<close> sees them next to its own fields.
\<close>

record memory =
  heap :: "nat \<Rightarrow> Block"
  next_block :: nat
  trace :: "driver_call list"

record DeviceCachingAllocator = memory +
  stats :: DeviceStats
  large_blocks :: "nat list"
  small_blocks :: "nat list"
  active_blocks :: "nat set"
  npu_events :: "(NPUStream \<times> (nat \<times> nat) list) list"
  total_allocated_memory :: size_t
  allowed_memory_maximum :: size_t
  set_fraction :: bool
  shutdown_stats :: bool

type_synonym 'a res = "(error + 'a) \<times> DeviceCachingAllocator"

record AllocParams =
  search_key :: Block
  pool_p :: pool_id
  alloc_size :: size_t
  block :: "nat option"
  stat_types :: StatTypes
  err :: aclError

definition new_AllocParams :: "int \<Rightarrow> size_t \<Rightarrow> aclrtStream \<Rightarrow> pool_id \<Rightarrow> size_t \<Rightarrow> AllocParams" where
  "new_AllocParams dev sz strm p asz =
     \<lparr>search_key = key_Block dev strm sz p, pool_p = p, alloc_size = asz, block = None,
      stat_types = no_stat_types, err = ACL_ERROR_NONE\<rparr>"

definition zero_Stat :: Stat where
  "zero_Stat = \<lparr>current = 0, peak = 0, allocated = 0, freed = 0\<rparr>"

definition zero_DeviceStats :: DeviceStats where
  "zero_DeviceStats =
     \<lparr>allocation = (\<lambda>_. zero_Stat), segment = (\<lambda>_. zero_Stat), active = (\<lambda>_. zero_Stat),
      inactive_split = (\<lambda>_. zero_Stat), allocated_bytes = (\<lambda>_. zero_Stat),
      reserved_bytes = (\<lambda>_. zero_Stat), active_bytes = (\<lambda>_. zero_Stat),
      inactive_split_bytes = (\<lambda>_. zero_Stat), num_alloc_retries = 0, num_ooms = 0,
      oversize_allocations = zero_Stat, oversize_segments = zero_Stat, max_split_size = 0\<rparr>"

text \<open>The constructor, on a process whose heap holds no block yet.\<close>

definition new_DeviceCachingAllocator :: "CachingAllocatorConfig \<Rightarrow> DeviceCachingAllocator" where
  "new_DeviceCachingAllocator cfg =
     \<lparr>heap = (\<lambda>_. new_Block 0 0 0 LargeBlocks 0), next_block = 0, trace = [],
      stats = zero_DeviceStats\<lparr>max_split_size := m_max_split_size cfg\<rparr>,
      large_blocks = [], small_blocks = [], active_blocks = {}, npu_events = [],
      total_allocated_memory = 0, allowed_memory_maximum = 0, set_fraction = False,
      shutdown_stats = False\<rparr>"

definition upd_block :: "nat \<Rightarrow> (Block \<Rightarrow> Block) \<Rightarrow> DeviceCachingAllocator \<Rightarrow> DeviceCachingAllocator" where
  "upd_block b f s = s\<lparr>heap := (heap s)(b := f (heap s b))\<rparr>"

text \<open>\<open>new Block(...)\<close>: the object is placed at the next free index of the heap.\<close>

definition new_object :: "Block \<Rightarrow> DeviceCachingAllocator \<Rightarrow> DeviceCachingAllocator" where
  "new_object blk s = s\<lparr>heap := (heap s)(next_block s := blk), next_block := Suc (next_block s)\<rparr>"

definition log_call :: "driver_call \<Rightarrow> DeviceCachingAllocator \<Rightarrow> DeviceCachingAllocator" where
  "log_call c s = s\<lparr>trace := trace s @ [c]\<rparr>"

definition blocks_of :: "pool_id \<Rightarrow> DeviceCachingAllocator \<Rightarrow> nat list" where
  "blocks_of p s = (if is_small p then small_blocks s else large_blocks s)"

definition set_blocks :: "pool_id \<Rightarrow> nat list \<Rightarrow> DeviceCachingAllocator \<Rightarrow> DeviceCachingAllocator" where
  "set_blocks p xs s = (if is_small p then s\<lparr>small_blocks := xs\<rparr> else s\<lparr>large_blocks := xs\<rparr>)"

definition upd_stats :: "(DeviceStats \<Rightarrow> DeviceStats) \<Rightarrow> DeviceCachingAllocator \<Rightarrow> DeviceCachingAllocator" where
  "upd_stats f s = s\<lparr>stats := f (stats s)\<rparr>"

definition bump :: "StatArray \<Rightarrow> StatType \<Rightarrow> int64_t \<Rightarrow> StatArray" where
  "bump arr stat_type amount = arr(stat_type := update_stat (arr stat_type) amount)"

section \<open>The per-device allocator: private methods\<close>

definition should_split :: "CachingAllocatorConfig \<Rightarrow> Block \<Rightarrow> size_t \<Rightarrow> bool" where
  "should_split cfg blk sz =
     (let remaining = size_b blk - sz in
      if is_small (pool blk) then remaining \<ge> kMinBlockSize
      else sz < m_max_split_size cfg \<and> remaining > kSmallSize)"

text \<open>
  The head of \<open>get_free_block\<close>: while garbage collection is enabled, every block of the
  pool that is searched grows one search older.
\<close>

definition age_blocks :: "CachingAllocatorConfig \<Rightarrow> pool_id \<Rightarrow> DeviceCachingAllocator \<Rightarrow> DeviceCachingAllocator" where
  "age_blocks cfg pl s =
     (if set_fraction s \<and> m_garbage_collection_threshold cfg > 0
      then fold (\<lambda>b. upd_block b (\<lambda>x. x\<lparr>gc_count := gc_count x + 1\<rparr>)) (blocks_of pl s) s
      else s)"

definition get_free_block ::
  "CachingAllocatorConfig \<Rightarrow> AllocParams \<Rightarrow> DeviceCachingAllocator \<Rightarrow> bool \<times> AllocParams \<times> DeviceCachingAllocator" where
  "get_free_block cfg p s =
     (let pl = pool_p p;
          s1 = age_blocks cfg pl s;
          xs = blocks_of pl s1;
          it = lower_bound (heap s1) xs (search_key p)
      in if it = length xs \<or> stream (heap s1 (xs ! it)) \<noteq> stream (search_key p) then (False, p, s1)
         else if size_b (search_key p) < m_max_split_size cfg
                 \<and> size_b (heap s1 (xs ! it)) \<ge> m_max_split_size cfg then (False, p, s1)
         else if size_b (search_key p) \<ge> m_max_split_size cfg
                 \<and> size_b (heap s1 (xs ! it)) \<ge> size_b (search_key p) + kLargeBuffer then (False, p, s1)
         else (True, p\<lparr>block := Some (xs ! it)\<rparr>,
               set_blocks pl (erase_at it xs) (upd_block (xs ! it) (\<lambda>x. x\<lparr>gc_count := 0\<rparr>) s1)))"

text \<open>
  The registered callbacks are run for their answer; what they do to memory held
  elsewhere is outside the allocator.
\<close>

definition trigger_free_memory_callbacks :: "driver \<Rightarrow> DeviceCachingAllocator \<Rightarrow> bool \<times> DeviceCachingAllocator" where
  "trigger_free_memory_callbacks d s = (callbacks_result d (length (trace s)), log_call FreeMemoryCallbacks s)"

text \<open>
  \<open>release_block\<close> declares its \<open>StatTypes\<close> without an initialiser and then sets the
  aggregate entry and the entry of the block's pool: the third entry is whatever the
  stack held.
\<close>

definition release_block :: "driver \<Rightarrow> CachingAllocatorConfig \<Rightarrow> nat \<Rightarrow> DeviceCachingAllocator \<Rightarrow> DeviceCachingAllocator" where
  "release_block d cfg b s =
     (let blk = heap s b;
          s1 = log_call (AclrtFree (ptr blk)) s;
          s2 = s1\<lparr>total_allocated_memory := total_allocated_memory s1 - size_b blk\<rparr>;
          sel = select_stat_types (indeterminate d (length (trace s2))) (pool blk);
          s3 = upd_stats (for_each_selected_stat_type sel (\<lambda>stat_type st.
                 st\<lparr>segment := bump (segment st) stat_type (- 1),
                    reserved_bytes := bump (reserved_bytes st) stat_type (- size_b blk)\<rparr>)) s2;
          s4 = (if size_b blk \<ge> m_max_split_size cfg
                then upd_stats (\<lambda>st. st\<lparr>oversize_segments := update_stat (oversize_segments st) (- 1)\<rparr>) s3
                else s3)
      in set_blocks (pool blk) (set_erase (heap s4) b (blocks_of (pool blk) s4)) s4)"

definition release_blocks :: "driver \<Rightarrow> CachingAllocatorConfig \<Rightarrow> pool_id \<Rightarrow> DeviceCachingAllocator \<Rightarrow> DeviceCachingAllocator" where
  "release_blocks d cfg pl s =
     fold (\<lambda>b s'. if prev_b (heap s' b) = None \<and> next_b (heap s' b) = None then release_block d cfg b s' else s')
       (blocks_of pl s) s"

definition try_merge_blocks :: "nat \<Rightarrow> nat option \<Rightarrow> pool_id \<Rightarrow> DeviceCachingAllocator \<Rightarrow> size_t res" where
  "try_merge_blocks dst src pl s =
     (case src of
        None \<Rightarrow> (Inr 0, s)
      | Some sb \<Rightarrow>
          if allocated_b (heap s sb) \<or> event_count (heap s sb) > 0 then (Inr 0, s)
          else if \<not> (is_split (heap s dst) \<and> is_split (heap s sb)) then (Inl AssertFailed, s)
          else
            let s1 = (if prev_b (heap s dst) = Some sb
                      then (let s' = upd_block dst (\<lambda>x. x\<lparr>ptr := ptr (heap s sb), prev_b := prev_b (heap s sb)\<rparr>) s
                            in case prev_b (heap s' dst) of
                                 Some q \<Rightarrow> upd_block q (\<lambda>x. x\<lparr>next_b := Some dst\<rparr>) s'
                               | None \<Rightarrow> s')
                      else (let s' = upd_block dst (\<lambda>x. x\<lparr>next_b := next_b (heap s sb)\<rparr>) s
                            in case next_b (heap s' dst) of
                                 Some q \<Rightarrow> upd_block q (\<lambda>x. x\<lparr>prev_b := Some dst\<rparr>) s'
                               | None \<Rightarrow> s'));
                subsumed_size = size_b (heap s1 sb);
                s2 = upd_block dst (\<lambda>x. x\<lparr>size_b := size_b x + subsumed_size\<rparr>) s1
            in (Inr subsumed_size, set_blocks pl (set_erase (heap s2) sb (blocks_of pl s2)) s2))"

definition free_block :: "nat \<Rightarrow> DeviceCachingAllocator \<Rightarrow> unit res" where
  "free_block b s =
     (if \<not> (\<not> allocated_b (heap s b) \<and> event_count (heap s b) = 0) then (Inl AssertFailed, s)
      else
        let original_block_size = size_b (heap s b);
            pl = pool (heap s b);
            cand1 = prev_b (heap s b);
            cand2 = next_b (heap s b)
        in case try_merge_blocks b cand1 pl s of
             (Inl e, s1) \<Rightarrow> (Inl e, s1)
           | (Inr sub1, s1) \<Rightarrow>
               (case try_merge_blocks b cand2 pl s1 of
                  (Inl e, s2) \<Rightarrow> (Inl e, s2)
                | (Inr sub2, s2) \<Rightarrow>
                    let n1 = (if 0 <s sub1 then (0 :: int64_t) - 1 else 0);
                        z1 = (if 0 <s sub1 then (0 :: int64_t) - sub1 else 0);
                        n2 = (if 0 <s sub2 then n1 - 1 else n1);
                        z2 = (if 0 <s sub2 then z1 - sub2 else z1);
                        s3 = s2\<lparr>active_blocks := active_blocks s2 - {b}\<rparr>;
                        s4 = set_blocks pl (set_insert (heap s3) b (blocks_of pl s3)) s3;
                        net_change_inactive_split_blocks = (if is_split (heap s4 b) then n2 + 1 else n2);
                        net_change_inactive_split_size = (if is_split (heap s4 b) then z2 + size_b (heap s4 b) else z2);
                        sel = select_stat_types no_stat_types (pool (heap s4 b))
                    in (Inr (), upd_stats (for_each_selected_stat_type sel (\<lambda>stat_type st.
                          st\<lparr>inactive_split := bump (inactive_split st) stat_type net_change_inactive_split_blocks,
                             inactive_split_bytes := bump (inactive_split_bytes st) stat_type net_change_inactive_split_size,
                             active := bump (active st) stat_type (- 1),
                             active_bytes := bump (active_bytes st) stat_type (- original_block_size)\<rparr>)) s4)))"

text \<open>
  \<open>npu_events\<close> maps a stream to its deque of (event, block) pairs; an event is named
  by the number of driver calls made before it was recorded. \<open>npu_events[stream]\<close>
  creates an empty deque for a stream that has none.
\<close>

definition deque_of :: "NPUStream \<Rightarrow> (NPUStream \<times> 'a list) list \<Rightarrow> 'a list" where
  "deque_of strm evs = (case map_of evs strm of None \<Rightarrow> [] | Some q \<Rightarrow> q)"

definition touch_deque :: "NPUStream \<Rightarrow> (NPUStream \<times> 'a list) list \<Rightarrow> (NPUStream \<times> 'a list) list" where
  "touch_deque strm evs = (case map_of evs strm of None \<Rightarrow> evs @ [(strm, [])] | Some q \<Rightarrow> evs)"

definition set_deque :: "NPUStream \<Rightarrow> 'a list \<Rightarrow> (NPUStream \<times> 'a list) list \<Rightarrow> (NPUStream \<times> 'a list) list" where
  "set_deque strm q evs = map (\<lambda>(k, v). if k = strm then (k, q) else (k, v)) (touch_deque strm evs)"

definition insert_events :: "nat \<Rightarrow> DeviceCachingAllocator \<Rightarrow> DeviceCachingAllocator" where
  "insert_events b s =
     fold (\<lambda>strm s'.
            let ev = length (trace s');
                s1 = log_call (EventRecord strm) s';
                s2 = upd_block b (\<lambda>x. x\<lparr>event_count := event_count x + 1\<rparr>) s1
            in s2\<lparr>npu_events := set_deque strm (deque_of strm (npu_events s2) @ [(ev, b)]) (npu_events s2)\<rparr>)
       (stream_uses (heap s b)) (upd_block b (\<lambda>x. x\<lparr>stream_uses := []\<rparr>) s)"

fun process_deque :: "driver \<Rightarrow> nat \<Rightarrow> (nat \<times> nat) list \<Rightarrow> DeviceCachingAllocator \<Rightarrow> unit res" where
  "process_deque d i [] s = (Inr (), s)"
| "process_deque d i ((ev, b) # rest) s =
     (let s1 = log_call (EventQuery ev) s in
      if \<not> query_result d (length (trace s)) ev then (Inr (), s1)
      else
        let s2 = upd_block b (\<lambda>x. x\<lparr>event_count := event_count x - 1\<rparr>) s1 in
        case (if event_count (heap s2 b) = 0 then free_block b s2 else (Inr (), s2)) of
          (Inl e, s3) \<Rightarrow> (Inl e, s3)
        | (Inr _, s3) \<Rightarrow>
            process_deque d i rest (s3\<lparr>npu_events := (npu_events s3)[i := (fst (npu_events s3 ! i), rest)]\<rparr>))"

fun process_streams :: "driver \<Rightarrow> nat \<Rightarrow> nat \<Rightarrow> DeviceCachingAllocator \<Rightarrow> unit res" where
  "process_streams d 0 i s = (Inr (), s)"
| "process_streams d (Suc n) i s =
     (case process_deque d i (snd (npu_events s ! i)) s of
        (Inl e, s1) \<Rightarrow> (Inl e, s1)
      | (Inr _, s1) \<Rightarrow>
          if snd (npu_events s1 ! i) = []
          then process_streams d n i (s1\<lparr>npu_events := erase_at i (npu_events s1)\<rparr>)
          else process_streams d n (Suc i) s1)"

definition process_events :: "driver \<Rightarrow> DeviceCachingAllocator \<Rightarrow> unit res" where
  "process_events d s = process_streams d (length (npu_events s)) 0 s"

fun sync_events :: "(nat \<times> nat) list \<Rightarrow> DeviceCachingAllocator \<Rightarrow> unit res" where
  "sync_events [] s = (Inr (), s)"
| "sync_events ((ev, b) # rest) s =
     (let s1 = log_call (AclrtSynchronizeEvent ev) s;
          s2 = upd_block b (\<lambda>x. x\<lparr>event_count := event_count x - 1\<rparr>) s1
      in case (if event_count (heap s2 b) = 0 then free_block b s2 else (Inr (), s2)) of
           (Inl e, s3) \<Rightarrow> (Inl e, s3)
         | (Inr _, s3) \<Rightarrow> sync_events rest s3)"

definition synchronize_and_free_events :: "bool \<Rightarrow> DeviceCachingAllocator \<Rightarrow> unit res" where
  "synchronize_and_free_events check_error s =
     (case sync_events (concat (map snd (npu_events s))) s of
        (Inl e, s1) \<Rightarrow> (Inl e, s1)
      | (Inr _, s1) \<Rightarrow> (Inr (), s1\<lparr>npu_events := []\<rparr>))"

definition release_cached_blocks :: "driver \<Rightarrow> CachingAllocatorConfig \<Rightarrow> bool \<Rightarrow> DeviceCachingAllocator \<Rightarrow> bool res" where
  "release_cached_blocks d cfg check_error s =
     (case synchronize_and_free_events check_error s of
        (Inl e, s1) \<Rightarrow> (Inl e, s1)
      | (Inr _, s1) \<Rightarrow>
          (Inr True, release_blocks d cfg SmallBlocks
                       (release_blocks d cfg LargeBlocks (log_call (NpuSynchronizeDevice check_error) s1))))"

fun release_oversize ::
  "driver \<Rightarrow> CachingAllocatorConfig \<Rightarrow> aclrtStream \<Rightarrow> size_t \<Rightarrow> nat list \<Rightarrow> size_t \<Rightarrow> DeviceCachingAllocator
   \<Rightarrow> size_t \<times> DeviceCachingAllocator" where
  "release_oversize d cfg strm ksz [] totalReleased s = (totalReleased, s)"
| "release_oversize d cfg strm ksz (b # bs) totalReleased s =
     (if totalReleased < ksz \<and> size_b (heap s b) \<ge> m_max_split_size cfg \<and> stream (heap s b) = strm
      then release_oversize d cfg strm ksz bs (totalReleased + size_b (heap s b)) (release_block d cfg b s)
      else (totalReleased, s))"

definition release_available_cached_blocks ::
  "driver \<Rightarrow> CachingAllocatorConfig \<Rightarrow> AllocParams \<Rightarrow> DeviceCachingAllocator \<Rightarrow> bool \<times> DeviceCachingAllocator" where
  "release_available_cached_blocks d cfg p s =
     (if m_max_split_size cfg = size_t_max then (False, s)
      else
        let pl = pool_p p;
            ksz = (if size_b (search_key p) < m_max_split_size cfg then m_max_split_size cfg
                   else size_b (search_key p));
            key = (search_key p)\<lparr>size_b := ksz\<rparr>;
            xs = blocks_of pl s;
            it = lower_bound (heap s) xs key
        in if it = length xs \<or> stream (heap s (xs ! it)) \<noteq> stream (search_key p)
           then (if it = 0 then (False, s)
                 else case release_oversize d cfg (stream (search_key p)) ksz (rev (take it xs)) 0 s of
                        (totalReleased, s1) \<Rightarrow> (\<not> totalReleased < ksz, s1))
           else (True, release_block d cfg (xs ! it) s))"

definition alloc_block ::
  "driver \<Rightarrow> CachingAllocatorConfig \<Rightarrow> AllocParams \<Rightarrow> bool \<Rightarrow> DeviceCachingAllocator
   \<Rightarrow> bool \<times> AllocParams \<times> DeviceCachingAllocator" where
  "alloc_block d cfg p isRetry s =
     (let sz = alloc_size p;
          s1 = (if isRetry then upd_stats (\<lambda>st. st\<lparr>num_alloc_retries := num_alloc_retries st + 1\<rparr>) s else s);
          limited = (set_fraction s1 \<and> total_allocated_memory s1 + sz > allowed_memory_maximum s1);
          answer = (if limited then (ACL_ERROR_RT_MEMORY_ALLOCATION, 0) else malloc_result d (length (trace s1)) sz);
          s2 = (if limited then s1 else log_call (AclrtMallocAlign32 sz) s1);
          p1 = p\<lparr>err := fst answer\<rparr>
      in if err p1 \<noteq> ACL_ERROR_NONE then (False, p1, s2)
         else
           let b = next_block s2;
               s3 = s2\<lparr>total_allocated_memory := total_allocated_memory s2 + sz\<rparr>;
               s4 = new_object (new_Block (device (search_key p1)) (stream (search_key p1)) sz
                                          (pool_p p1) (snd answer)) s3;
               s5 = upd_stats (for_each_selected_stat_type (stat_types p1) (\<lambda>stat_type st.
                      st\<lparr>segment := bump (segment st) stat_type 1,
                         reserved_bytes := bump (reserved_bytes st) stat_type sz\<rparr>)) s4;
               s6 = (if sz \<ge> m_max_split_size cfg
                     then upd_stats (\<lambda>st. st\<lparr>oversize_segments := update_stat (oversize_segments st) 1\<rparr>) s5
                     else s5)
           in (True, p1\<lparr>block := Some b\<rparr>, s6))"

section \<open>Fragmentation garbage collection\<close>

text \<open>
  One pass over the large pool with a fixed age threshold. The accumulator is
  (\<open>block_freed\<close>, \<open>gc_reclaimed\<close>, \<open>total_age\<close>, \<open>freeable_block_count\<close>, allocator).
\<close>

fun gc_sweep ::
  "driver \<Rightarrow> CachingAllocatorConfig \<Rightarrow> real \<Rightarrow> nat list
   \<Rightarrow> bool \<times> size_t \<times> real \<times> int \<times> DeviceCachingAllocator
   \<Rightarrow> bool \<times> size_t \<times> real \<times> int \<times> DeviceCachingAllocator" where
  "gc_sweep d cfg age_threshold [] acc = acc"
| "gc_sweep d cfg age_threshold (b # bs) (block_freed, gc_reclaimed, total_age, cnt, s) =
     (if \<not> is_split (heap s b) \<and> real_of_int (gc_count (heap s b)) \<ge> age_threshold
      then gc_sweep d cfg age_threshold bs
             (True, gc_reclaimed + size_b (heap s b), total_age - real_of_int (gc_count (heap s b)),
              cnt - 1, release_block d cfg b s)
      else gc_sweep d cfg age_threshold bs (block_freed, gc_reclaimed, total_age, cnt, s))"

lemma gc_sweep_count:
  "gc_sweep d cfg th bs (bf, r, a, cnt, s) = (bf', r', a', cnt', s') \<Longrightarrow>
     cnt' \<le> cnt \<and> (bf' \<and> \<not> bf \<longrightarrow> cnt' < cnt)"
proof (induction bs arbitrary: bf r a cnt s)
  case Nil
  then show ?case by simp
next
  case (Cons b bs)
  show ?case
  proof (cases "\<not> is_split (heap s b) \<and> real_of_int (gc_count (heap s b)) \<ge> th")
    case True
    with Cons.prems have
      "gc_sweep d cfg th bs (True, r + size_b (heap s b), a - real_of_int (gc_count (heap s b)),
         cnt - 1, release_block d cfg b s) = (bf', r', a', cnt', s')"
      by simp
    from Cons.IH [OF this] show ?thesis by auto
  next
    case False
    with Cons.prems have "gc_sweep d cfg th bs (bf, r, a, cnt, s) = (bf', r', a', cnt', s')"
      by auto
    from Cons.IH [OF this] show ?thesis .
  qed
qed

function gc_loop ::
  "driver \<Rightarrow> CachingAllocatorConfig \<Rightarrow> size_t
   \<Rightarrow> bool \<times> size_t \<times> real \<times> int \<times> DeviceCachingAllocator \<Rightarrow> DeviceCachingAllocator" where
  "gc_loop d cfg gc_target (block_freed, gc_reclaimed, total_age, cnt, s) =
     (if gc_reclaimed < gc_target \<and> block_freed \<and> cnt > 0
      then gc_loop d cfg gc_target
             (gc_sweep d cfg (total_age / real_of_int cnt) (large_blocks s)
                (False, gc_reclaimed, total_age, cnt, s))
      else s)"
  by pat_completeness auto
termination
proof (relation "measure (\<lambda>(d, cfg, gc_target, block_freed, gc_reclaimed, total_age, cnt, s).
                    if block_freed then Suc (nat cnt) else 0)", goal_cases)
  case 1
  show ?case by simp
next
  case (2 d cfg gc_target block_freed gc_reclaimed total_age cnt s)
  obtain bf' r' a' cnt' s' where sw:
    "gc_sweep d cfg (total_age / real_of_int cnt) (large_blocks s) (False, gc_reclaimed, total_age, cnt, s)
       = (bf', r', a', cnt', s')"
    by (rule prod_cases5)
  from gc_sweep_count [OF sw] 2 show ?case
    by (auto simp: sw)
qed

declare gc_loop.simps [simp del]

definition garbage_collect_cached_blocks ::
  "driver \<Rightarrow> CachingAllocatorConfig \<Rightarrow> DeviceCachingAllocator \<Rightarrow> DeviceCachingAllocator" where
  "garbage_collect_cached_blocks d cfg s =
     (let gc_threshold = cast_size_t (to_double (m_garbage_collection_threshold cfg
                                                   * to_double (real (unat (allowed_memory_maximum s))))) in
      if total_allocated_memory s \<le> gc_threshold then s
      else
        let gc_target = total_allocated_memory s - gc_threshold;
            freeable = filter (\<lambda>b. \<not> is_split (heap s b)) (large_blocks s);
            total_age = sum_list (map (\<lambda>b. real_of_int (gc_count (heap s b))) freeable);
            freeable_block_count = int (length freeable)
        in if freeable_block_count = 0 then s
           else gc_loop d cfg gc_target
                  (True, 0, total_age, freeable_block_count, log_call (NpuSynchronizeDevice True) s))"

section \<open>The per-device allocator: public methods\<close>

text \<open>
  The tail of \<open>malloc\<close>, from \<open>Block* block = params.block\<close> on: the split step, the
  activation of the block and the statistics.
\<close>

definition split_block ::
  "int \<Rightarrow> aclrtStream \<Rightarrow> size_t \<Rightarrow> pool_id \<Rightarrow> StatTypes \<Rightarrow> bool \<Rightarrow> nat \<Rightarrow> DeviceCachingAllocator
   \<Rightarrow> nat \<times> DeviceCachingAllocator" where
  "split_block dev strm sz pl sel already_split remaining s =
     (let b = next_block s;
          s1 = new_object (new_Block dev strm sz pl (ptr (heap s remaining))) s;
          s2 = upd_block b (\<lambda>x. x\<lparr>prev_b := prev_b (heap s1 remaining)\<rparr>) s1;
          s3 = (case prev_b (heap s2 b) of
                  Some q \<Rightarrow> upd_block q (\<lambda>x. x\<lparr>next_b := Some b\<rparr>) s2
                | None \<Rightarrow> s2);
          s4 = upd_block b (\<lambda>x. x\<lparr>next_b := Some remaining\<rparr>) s3;
          s5 = upd_block remaining (\<lambda>x. x\<lparr>prev_b := Some b, ptr := ptr x + sz, size_b := size_b x - sz\<rparr>) s4;
          s6 = set_blocks pl (set_insert (heap s5) remaining (blocks_of pl s5)) s5;
          s7 = (if already_split
                then upd_stats (\<lambda>st. st\<lparr>inactive_split_bytes :=
                       update_stat_array (inactive_split_bytes st) (- size_b (heap s6 b)) sel\<rparr>) s6
                else upd_stats (for_each_selected_stat_type sel (\<lambda>stat_type st.
                       st\<lparr>inactive_split_bytes := bump (inactive_split_bytes st) stat_type (size_b (heap s6 remaining)),
                          inactive_split := bump (inactive_split st) stat_type 1\<rparr>)) s6)
      in (b, s7))"

definition malloc_finish ::
  "CachingAllocatorConfig \<Rightarrow> int \<Rightarrow> aclrtStream \<Rightarrow> size_t \<Rightarrow> pool_id \<Rightarrow> AllocParams \<Rightarrow> DeviceCachingAllocator
   \<Rightarrow> nat res" where
  "malloc_finish cfg dev strm sz pl params s =
     (case block params of
        None \<Rightarrow> (Inl AssertFailed, s)
      | Some found \<Rightarrow>
          let already_split = is_split (heap s found);
              (b, s1) =
                 (if should_split cfg (heap s found) sz
                  then split_block dev strm sz pl (stat_types params) already_split found s
                  else if already_split
                  then (found, upd_stats (for_each_selected_stat_type (stat_types params) (\<lambda>stat_type st.
                          st\<lparr>inactive_split_bytes := bump (inactive_split_bytes st) stat_type (- size_b (heap s found)),
                             inactive_split := bump (inactive_split st) stat_type (- 1)\<rparr>)) s)
                  else (found, s));
              s2 = upd_block b (\<lambda>x. x\<lparr>allocated_b := True\<rparr>) s1;
              s3 = s2\<lparr>active_blocks := insert b (active_blocks s2)\<rparr>;
              s4 = upd_stats (for_each_selected_stat_type (stat_types params) (\<lambda>stat_type st.
                     st\<lparr>allocation := bump (allocation st) stat_type 1,
                        allocated_bytes := bump (allocated_bytes st) stat_type (size_b (heap s3 b)),
                        active := bump (active st) stat_type 1,
                        active_bytes := bump (active_bytes st) stat_type (size_b (heap s3 b))\<rparr>)) s3;
              s5 = (if size_b (heap s4 b) \<ge> m_max_split_size cfg
                    then upd_stats (\<lambda>st. st\<lparr>oversize_allocations := update_stat (oversize_allocations st) 1\<rparr>) s4
                    else s4)
          in (Inr b, s5))"

text \<open>
  The middle of \<open>malloc\<close>, entered when no cached block fits: garbage collection when it
  is enabled, then the three attempts on the driver.
\<close>

definition malloc_new_block ::
  "driver \<Rightarrow> CachingAllocatorConfig \<Rightarrow> AllocParams \<Rightarrow> DeviceCachingAllocator \<Rightarrow> (bool \<times> AllocParams) res" where
  "malloc_new_block d cfg p s =
     (let s0 = (if set_fraction s \<and> m_garbage_collection_threshold cfg > 0
                then garbage_collect_cached_blocks d cfg s else s);
          (a1, p1, s1) = alloc_block d cfg p False s0
      in if a1 then (Inr (True, p1), s1)
         else
           let (r2, s2) = release_available_cached_blocks d cfg p1 s1;
               (a2, p2, s3) = (if r2 then alloc_block d cfg p1 False s2 else (False, p1, s2))
           in if a2 then (Inr (True, p2), s3)
              else case release_cached_blocks d cfg True s3 of
                     (Inl e, s4) \<Rightarrow> (Inl e, s4)
                   | (Inr r3, s4) \<Rightarrow>
                       if r3 then (case alloc_block d cfg p2 True s4 of (a3, p3, s5) \<Rightarrow> (Inr (a3, p3), s5))
                       else (Inr (False, p2), s4))"

definition malloc_params :: "int \<Rightarrow> size_t \<Rightarrow> aclrtStream \<Rightarrow> AllocParams" where
  "malloc_params dev sz strm =
     (new_AllocParams dev sz strm (get_pool sz) (get_allocation_size sz))
       \<lparr>stat_types := select_stat_types no_stat_types (get_pool sz)\<rparr>"

definition malloc ::
  "driver \<Rightarrow> CachingAllocatorConfig \<Rightarrow> int \<Rightarrow> size_t \<Rightarrow> aclrtStream \<Rightarrow> DeviceCachingAllocator \<Rightarrow> nat res" where
  "malloc d cfg dev sz0 strm s =
     (case process_events d s of
        (Inl e, s1) \<Rightarrow> (Inl e, s1)
      | (Inr _, s1) \<Rightarrow>
          let sz = round_size sz0;
              pl = get_pool sz;
              params = malloc_params dev sz strm;
              (f1, p1, s2) = get_free_block cfg params s1;
              (block_found, p2, s3) =
                 (if f1 then (True, p1, s2)
                  else case trigger_free_memory_callbacks d s2 of
                         (freed_memory, s2') \<Rightarrow>
                           if freed_memory then get_free_block cfg p1 s2' else (False, p1, s2'))
          in case (if block_found then (Inr (True, p2), s3) else malloc_new_block d cfg p2 s3) of
               (Inl e, s4) \<Rightarrow> (Inl e, s4)
             | (Inr (found, p3), s4) \<Rightarrow>
                 if \<not> found
                 then (if err p3 = ACL_ERROR_RT_MEMORY_ALLOCATION
                       then (Inl OutOfMemory, upd_stats (\<lambda>st. st\<lparr>num_ooms := num_ooms st + 1\<rparr>) s4)
                       else if err p3 \<noteq> ACL_ERROR_NONE then (Inl (DriverError (err p3)), s4)
                       else (Inl AssertFailed, s4))
                 else malloc_finish cfg dev strm sz pl p3 s4)"

definition free :: "CachingAllocatorConfig \<Rightarrow> nat \<Rightarrow> DeviceCachingAllocator \<Rightarrow> unit res" where
  "free cfg b s =
     (let s1 = upd_block b (\<lambda>x. x\<lparr>allocated_b := False\<rparr>) s;
          sel = select_stat_types no_stat_types (pool (heap s1 b));
          s2 = upd_stats (for_each_selected_stat_type sel (\<lambda>stat_type st.
                 st\<lparr>allocation := bump (allocation st) stat_type (- 1),
                    allocated_bytes := bump (allocated_bytes st) stat_type (- size_b (heap s1 b))\<rparr>)) s1;
          s3 = (if size_b (heap s2 b) \<ge> m_max_split_size cfg
                then upd_stats (\<lambda>st. st\<lparr>oversize_allocations := update_stat (oversize_allocations st) (- 1)\<rparr>) s2
                else s2)
      in if stream_uses (heap s3 b) \<noteq> [] \<and> \<not> shutdown_stats s3
         then (Inr (), insert_events b s3)
         else free_block b s3)"

text \<open>
  \<open>getBaseAllocation\<close> walks the sibling chain to its head and then to its end; on a
  chain that loops it does not return.
\<close>

partial_function (option) chain_head :: "(nat \<Rightarrow> Block) \<Rightarrow> nat \<Rightarrow> nat option" where
  "chain_head h b = (case prev_b (h b) of None \<Rightarrow> Some b | Some q \<Rightarrow> chain_head h q)"

partial_function (option) chain_size :: "(nat \<Rightarrow> Block) \<Rightarrow> nat option \<Rightarrow> size_t \<Rightarrow> size_t option" where
  "chain_size h b acc = (case b of None \<Rightarrow> Some acc | Some q \<Rightarrow> chain_size h (next_b (h q)) (acc + size_b (h q)))"

definition getBaseAllocation :: "nat \<Rightarrow> bool \<Rightarrow> DeviceCachingAllocator \<Rightarrow> (devptr \<times> size_t option) option" where
  "getBaseAllocation b outSize s =
     (case chain_head (heap s) b of
        None \<Rightarrow> None
      | Some hd_b \<Rightarrow>
          if outSize
          then (case chain_size (heap s) (Some hd_b) 0 of
                  None \<Rightarrow> None
                | Some total_sz \<Rightarrow> Some (ptr (heap s hd_b), Some total_sz))
          else Some (ptr (heap s hd_b), None))"

definition recordStream :: "nat \<Rightarrow> NPUStream \<Rightarrow> DeviceCachingAllocator \<Rightarrow> DeviceCachingAllocator" where
  "recordStream b strm s =
     upd_block b (\<lambda>x. x\<lparr>stream_uses := (if strm \<in> set (stream_uses x) then stream_uses x
                                          else stream_uses x @ [strm])\<rparr>) s"

fun erase_events :: "nat \<Rightarrow> NPUStream \<Rightarrow> nat \<Rightarrow> (nat \<times> nat) list \<Rightarrow> DeviceCachingAllocator \<Rightarrow> unit res" where
  "erase_events blk strm j [] s = (Inr (), s)"
| "erase_events blk strm j ((ev, b) # rest) s =
     (if blk \<noteq> b then erase_events blk strm (Suc j) rest s
      else
        let s1 = s\<lparr>npu_events := set_deque strm (erase_at j (deque_of strm (npu_events s))) (npu_events s)\<rparr>;
            s2 = upd_block blk (\<lambda>x. x\<lparr>event_count := event_count x - 1\<rparr>) s1
        in if event_count (heap s2 blk) = 0 then free_block blk s2
           else erase_events blk strm j rest s2)"

definition eraseStream :: "nat \<Rightarrow> NPUStream \<Rightarrow> DeviceCachingAllocator \<Rightarrow> unit res" where
  "eraseStream b strm s =
     (let s1 = upd_block b (\<lambda>x. x\<lparr>stream_uses := removeAll strm (stream_uses x)\<rparr>) s;
          s2 = s1\<lparr>npu_events := touch_deque strm (npu_events s1)\<rparr>
      in erase_events b strm 0 (deque_of strm (npu_events s2)) s2)"

text \<open>\<open>device_total\<close> is what \<open>aclrtGetMemInfo\<close> reported.\<close>

definition setMemoryFraction :: "real \<Rightarrow> size_t \<Rightarrow> DeviceCachingAllocator \<Rightarrow> DeviceCachingAllocator" where
  "setMemoryFraction fraction device_total s =
     s\<lparr>allowed_memory_maximum := cast_size_t (to_double (fraction * to_double (real (unat device_total)))),
       set_fraction := True\<rparr>"



definition getStats :: "DeviceCachingAllocator \<Rightarrow> DeviceStats" where
  "getStats s = stats s"



section \<open>The process-wide allocator\<close>

text \<open>
  \<open>THNCachingAllocator\<close> maps the device pointers it has handed out to their blocks and
  owns one \<open>DeviceCachingAllocator\<close> per device. A method of the allocator of device
  \<open>dev\<close> runs on the process memory together with that allocator's own fields; indexing
  \<open>device_allocator\<close> out of range is reported as \<open>NoSuchDevice\<close>.
\<close>

record THNCachingAllocator =
  allocated_blocks :: "devptr \<rightharpoonup> nat"
  device_allocator :: "unit DeviceCachingAllocator_ext list"
  process_memory :: memory

definition on_device ::
  "int \<Rightarrow> (DeviceCachingAllocator \<Rightarrow> (error + 'a) \<times> DeviceCachingAllocator) \<Rightarrow> THNCachingAllocator
   \<Rightarrow> (error + 'a) \<times> THNCachingAllocator" where
  "on_device dev f t =
     (if dev < 0 \<or> length (device_allocator t) \<le> nat dev then (Inl (NoSuchDevice dev), t)
      else case f (memory.extend (process_memory t) (device_allocator t ! nat dev)) of
             (r, a) \<Rightarrow> (r, t\<lparr>device_allocator := (device_allocator t)[nat dev := memory.more a],
                            process_memory := memory.truncate a\<rparr>))"

definition get_allocated_block :: "devptr \<Rightarrow> bool \<Rightarrow> THNCachingAllocator \<Rightarrow> nat option \<times> THNCachingAllocator" where
  "get_allocated_block p remove t =
     (case allocated_blocks t p of
        None \<Rightarrow> (None, t)
      | Some b \<Rightarrow> (Some b, if remove then t\<lparr>allocated_blocks := (allocated_blocks t)(p := None)\<rparr> else t))"

definition THN_malloc ::
  "driver \<Rightarrow> CachingAllocatorConfig \<Rightarrow> int \<Rightarrow> size_t \<Rightarrow> aclrtStream \<Rightarrow> THNCachingAllocator
   \<Rightarrow> (error + devptr) \<times> THNCachingAllocator" where
  "THN_malloc d cfg dev sz strm t =
     (case on_device dev (malloc d cfg dev sz strm) t of
        (Inl e, t1) \<Rightarrow> (Inl e, t1)
      | (Inr b, t1) \<Rightarrow>
          let p = ptr (heap (process_memory t1) b)
          in (Inr p, t1\<lparr>allocated_blocks := (allocated_blocks t1)(p \<mapsto> b)\<rparr>))"

definition THN_free :: "CachingAllocatorConfig \<Rightarrow> devptr \<Rightarrow> THNCachingAllocator \<Rightarrow> (error + unit) \<times> THNCachingAllocator" where
  "THN_free cfg p t =
     (if p = 0 then (Inr (), t)
      else case get_allocated_block p True t of
             (None, t1) \<Rightarrow> (Inl (InvalidDevicePointer p), t1)
           | (Some b, t1) \<Rightarrow> on_device (device (heap (process_memory t1) b)) (free cfg b) t1)"

text \<open>\<open>None\<close>: the walk along the sibling chain does not end.\<close>

definition THN_getBaseAllocation ::
  "devptr \<Rightarrow> bool \<Rightarrow> THNCachingAllocator \<Rightarrow> (error + devptr \<times> size_t option) option" where
  "THN_getBaseAllocation p outSize t =
     (case get_allocated_block p False t of
        (None, t1) \<Rightarrow> Some (Inl (InvalidDevicePointer p))
      | (Some b, t1) \<Rightarrow>
          let dev = device (heap (process_memory t1) b) in
          if dev < 0 \<or> length (device_allocator t1) \<le> nat dev then Some (Inl (NoSuchDevice dev))
          else map_option Inr
                 (getBaseAllocation b outSize
                    (memory.extend (process_memory t1) (device_allocator t1 ! nat dev))))"

text \<open>A \<open>c10::DataPtr\<close>: the pointer it holds and whether its deleter is \<open>raw_delete\<close>.\<close>

record DataPtr =
  get :: devptr
  deleter_is_raw_delete :: bool

definition THN_recordStream :: "DataPtr \<Rightarrow> NPUStream \<Rightarrow> THNCachingAllocator \<Rightarrow> (error + unit) \<times> THNCachingAllocator" where
  "THN_recordStream dp strm t =
     (if get dp = 0 then (Inr (), t)
      else if \<not> deleter_is_raw_delete dp then (Inr (), t)
      else case get_allocated_block (get dp) False t of
             (None, t1) \<Rightarrow> (Inl AssertFailed, t1)
           | (Some b, t1) \<Rightarrow>
               on_device (device (heap (process_memory t1) b)) (\<lambda>a. (Inr (), recordStream b strm a)) t1)"

definition THN_eraseStream :: "DataPtr \<Rightarrow> NPUStream \<Rightarrow> THNCachingAllocator \<Rightarrow> (error + unit) \<times> THNCachingAllocator" where
  "THN_eraseStream dp strm t =
     (if get dp = 0 then (Inr (), t)
      else case get_allocated_block (get dp) False t of
             (None, t1) \<Rightarrow> (Inl (InvalidDevicePointer (get dp)), t1)
           | (Some b, t1) \<Rightarrow> on_device (device (heap (process_memory t1) b)) (eraseStream b strm) t1)"

text \<open>
  The functions of the namespace, on the global \<open>caching_allocator\<close>. \<open>dev\<close> and
  \<open>strm\<close> are the current device and its current stream.
\<close>

definition raw_alloc_with_stream ::
  "driver \<Rightarrow> CachingAllocatorConfig \<Rightarrow> int \<Rightarrow> size_t \<Rightarrow> aclrtStream \<Rightarrow> THNCachingAllocator
   \<Rightarrow> (error + devptr) \<times> THNCachingAllocator" where
  "raw_alloc_with_stream d cfg dev nbytes strm t =
     (if nbytes = 0 then (Inr 0, t) else THN_malloc d cfg dev nbytes strm t)"

definition raw_delete :: "CachingAllocatorConfig \<Rightarrow> devptr \<Rightarrow> THNCachingAllocator \<Rightarrow> (error + unit) \<times> THNCachingAllocator" where
  "raw_delete cfg p t = THN_free cfg p t"

definition get_base_allocation ::
  "devptr \<Rightarrow> bool \<Rightarrow> THNCachingAllocator \<Rightarrow> (error + devptr \<times> size_t option) option" where
  "get_base_allocation p outSize t = THN_getBaseAllocation p outSize t"

definition erase_stream :: "DataPtr \<Rightarrow> NPUStream \<Rightarrow> THNCachingAllocator \<Rightarrow> (error + unit) \<times> THNCachingAllocator" where
  "erase_stream dp strm t = THN_eraseStream dp strm t"

text \<open>\<open>init\<close> on a process that has no allocator yet.\<close>

definition THN_init :: "CachingAllocatorConfig \<Rightarrow> nat \<Rightarrow> THNCachingAllocator" where
  "THN_init cfg device_count =
     \<lparr>allocated_blocks = Map.empty,
      device_allocator = replicate device_count (memory.more (new_DeviceCachingAllocator cfg)),
      process_memory = memory.truncate (new_DeviceCachingAllocator cfg)\<rparr>"

section \<open>The task queue\<close>

text \<open>
  The submission ring of \<open>Repository\<close>. The ring indices are the \<open>unsigned int\<close> fields
  of \<open>write_idx\<close> and \<open>read_idx\<close>, the slots of \<open>datas\<close> are numbered from 0. The
  registered callbacks are a capability record: a callback that was never registered is
  \<open>None\<close> (or \<open>False\<close>, where only its being called matters), and calling it raises. Every
  call of a callback is logged with the slot it was given. An \<open>eventfd\<close> is its counter
  while it is open and \<open>None\<close> once it is closed; \<open>eventfd\<close> calls are not interrupted
  by signals.
\<close>

datatype RepoStatus = INIT | RUN | NEED_EXIT | CAN_EXIT

datatype cb_call = Exec nat | Copy nat | Release nat | Delete

record 'a CallBackManager =
  execFunc :: "('a \<Rightarrow> int) option"
  copyFunc :: "('a \<Rightarrow> 'a) option"
  releaseFunc :: bool
  deleteFunc :: bool

record 'a Repository =
  datas :: "nat \<Rightarrow> 'a"
  read_idx :: "32 word"
  write_idx :: "32 word"
  read_working :: bool
  write_working :: bool
  efd_read :: "nat option"
  efd_write :: "nat option"
  efd_empty :: "nat option"
  need_empty :: bool
  initialized :: bool
  repo_status :: RepoStatus
  calls :: "cb_call list"

definition kQueueCapacity :: "32 word" where
  "kQueueCapacity = 4096"

definition IsFullQueue :: "'a Repository \<Rightarrow> bool" where
  "IsFullQueue s = (((write_idx s + 1) AND (kQueueCapacity - 1)) = read_idx s)"

text \<open>
  Modelled from the spec: \<open>IsEmptyQueue\<close> is defined in the queue's header, which is not
  among the sources. The ring has a write index and a read index that advance modulo the
  capacity; it is empty when the two are equal.
\<close>

definition IsEmptyQueue :: "'a Repository \<Rightarrow> bool" where
  "IsEmptyQueue s = (read_idx s = write_idx s)"

definition WriteQueue :: "'a CallBackManager \<Rightarrow> 'a \<Rightarrow> 'a Repository \<Rightarrow> (error + bool) \<times> 'a Repository" where
  "WriteQueue mgr cur_paras s =
     (if IsFullQueue s then (Inr False, s)
      else case copyFunc mgr of
             None \<Rightarrow> (Inl CallbackMissing, s)
           | Some cp \<Rightarrow>
               (Inr True,
                s\<lparr>datas := (datas s)(unat (write_idx s) := cp cur_paras),
                  calls := calls s @ [Copy (unat (write_idx s))],
                  write_idx := (write_idx s + 1) AND (kQueueCapacity - 1)\<rparr>))"

definition ReleaseResource :: "'a CallBackManager \<Rightarrow> 'a Repository \<Rightarrow> (error + unit) \<times> 'a Repository" where
  "ReleaseResource mgr s =
     (if \<not> deleteFunc mgr then (Inl CallbackMissing, s)
      else (Inr (), s\<lparr>calls := calls s @ [Delete], efd_read := None, efd_write := None, efd_empty := None\<rparr>))"

text \<open>
  The loop of \<open>ReadQueue\<close> that runs after a failed kernel launch. It ends only when the
  read index meets the write index: \<open>None\<close> is a loop that never ends.
\<close>

partial_function (option) drain :: "'a CallBackManager \<Rightarrow> 'a Repository \<Rightarrow> ((error + unit) \<times> 'a Repository) option" where
  "drain mgr s =
     (if IsEmptyQueue s then Some (Inr (), s)
      else if \<not> releaseFunc mgr then Some (Inl CallbackMissing, s)
      else drain mgr (s\<lparr>calls := calls s @ [Release (unat (read_idx s))],
                        read_idx := (read_idx s + 1) AND (kQueueCapacity - 1)\<rparr>))"

definition ReadQueue :: "'a CallBackManager \<Rightarrow> 'a Repository \<Rightarrow> ((error + bool) \<times> 'a Repository) option" where
  "ReadQueue mgr s =
     (if IsEmptyQueue s then Some (Inr False, s)
      else case execFunc mgr of
             None \<Rightarrow> Some (Inl CallbackMissing, s)
           | Some ex \<Rightarrow>
               let ret = ex (datas s (unat (read_idx s)));
                   s1 = s\<lparr>calls := calls s @ [Exec (unat (read_idx s))]\<rparr>
               in if ret \<noteq> 0
                  then (case drain mgr s1 of
                          None \<Rightarrow> None
                        | Some (Inl e, s2) \<Rightarrow> Some (Inl e, s2)
                        | Some (Inr _, s2) \<Rightarrow>
                            (case ReleaseResource mgr s2 of
                               (Inl e, s3) \<Rightarrow> Some (Inl e, s3)
                             | (Inr _, s3) \<Rightarrow> Some (Inl KernelFailure, s3)))
                  else if \<not> releaseFunc mgr then Some (Inl CallbackMissing, s1)
                  else Some (Inr True,
                             s1\<lparr>calls := calls s1 @ [Release (unat (read_idx s1))],
                                read_idx := (read_idx s1 + 1) AND (kQueueCapacity - 1)\<rparr>))"

text \<open>
  How a call of the producer ends when no other thread runs meanwhile: it returns, it
  raises, or it sleeps in \<open>eventfd_read\<close> on a counter that is zero.
\<close>

datatype efd = Efd_read | Efd_write | Efd_empty

datatype 's ending = Returns 's | Raises error 's | Blocks efd 's

function enqueue_loop :: "'a CallBackManager \<Rightarrow> 'a \<Rightarrow> 'a Repository \<Rightarrow> 'a Repository ending" where
  "enqueue_loop mgr cur_paras s =
     (case WriteQueue mgr cur_paras s of
        (Inl e, s1) \<Rightarrow> Raises e s1
      | (Inr ret, s1) \<Rightarrow>
          if \<not> ret then
            (let s2 = s1\<lparr>write_working := False\<rparr> in
             if IsFullQueue s2 then
               (case efd_write s2 of
                  None \<Rightarrow> Returns s2
                | Some c \<Rightarrow>
                    if c = 0 then Blocks Efd_write s2
                    else enqueue_loop mgr cur_paras (s2\<lparr>efd_write := Some 0, write_working := True\<rparr>))
             else enqueue_loop mgr cur_paras s2)
          else
            (let s2 = (if \<not> read_working s1
                       then (case efd_read s1 of None \<Rightarrow> None | Some c \<Rightarrow> Some (s1\<lparr>efd_read := Some (c + 1)\<rparr>))
                       else Some s1)
             in case s2 of
                  None \<Rightarrow> Returns s1
                | Some s3 \<Rightarrow> Returns (s3\<lparr>write_working := False\<rparr>)))"
  by pat_completeness auto
termination
proof (relation "measure (\<lambda>(mgr, cur_paras, s). case efd_write s of Some (Suc c) \<Rightarrow> 1 | _ \<Rightarrow> 0)", goal_cases)
  case 1
  show ?case by simp
next
  case (2 mgr cur_paras s x1 x2 ret s2 c)
  then show ?case
    by (cases c) (auto simp: WriteQueue_def split: if_splits option.splits)
next
  case (3 mgr cur_paras s x1 x2 ret s2)
  then show ?case
    by (auto simp: WriteQueue_def IsFullQueue_def split: if_splits option.splits)
qed

declare enqueue_loop.simps [simp del]

definition Enqueue :: "'a CallBackManager \<Rightarrow> 'a \<Rightarrow> 'a Repository \<Rightarrow> 'a Repository ending" where
  "Enqueue mgr cur_paras s =
     (if \<not> initialized s then Returns s
      else if repo_status s \<noteq> RUN \<and> repo_status s \<noteq> INIT then Returns s
      else enqueue_loop mgr cur_paras (s\<lparr>write_working := True\<rparr>))"

text \<open>Successive calls of the producer, up to the first that does not return.\<close>

fun Enqueue_all :: "'a CallBackManager \<Rightarrow> 'a list \<Rightarrow> 'a Repository \<Rightarrow> 'a Repository ending" where
  "Enqueue_all mgr [] s = Returns s"
| "Enqueue_all mgr (x # xs) s =
     (case Enqueue mgr x s of
        Returns s1 \<Rightarrow> Enqueue_all mgr xs s1
      | Raises e s1 \<Rightarrow> Raises e s1
      | Blocks w s1 \<Rightarrow> Blocks w s1)"

text \<open>
  The ring as a count: both indices stay below the capacity, and the ring holds
  \<open>ring_count\<close> records, in the slots \<open>ring_slots\<close> lists from the read index on.
\<close>

definition ring_wf :: "'a Repository \<Rightarrow> bool" where
  "ring_wf s = (unat (read_idx s) < 4096 \<and> unat (write_idx s) < 4096)"

definition ring_count :: "'a Repository \<Rightarrow> nat" where
  "ring_count s = (unat (write_idx s) + 4096 - unat (read_idx s)) mod 4096"

fun ring_slots :: "nat \<Rightarrow> nat \<Rightarrow> nat list" where
  "ring_slots r 0 = []"
| "ring_slots r (Suc n) = r # ring_slots ((r + 1) mod 4096) n"

definition producer_ready :: "'a CallBackManager \<Rightarrow> 'a Repository \<Rightarrow> bool" where
  "producer_ready mgr s =
     (initialized s \<and> (repo_status s = RUN \<or> repo_status s = INIT) \<and> copyFunc mgr \<noteq> None
      \<and> efd_write s \<noteq> None \<and> ring_wf s)"

fun blocked_on :: "'s ending \<Rightarrow> efd option" where
  "blocked_on (Blocks w s) = Some w"
| "blocked_on (Returns s) = None"
| "blocked_on (Raises e s) = None"

text \<open>
  \<open>InitRepo\<close> on a new \<open>Repository\<close>, with the consumer thread it starts left out: the
  buffer holds \<open>blank\<close> records, the three eventfds are open with counter zero, and the
  indices and flags have the zero values their declarations give them.
\<close>

definition InitRepo :: "'a \<Rightarrow> 'a Repository" where
  "InitRepo blank =
     \<lparr>datas = (\<lambda>_. blank), read_idx = 0, write_idx = 0, read_working = False, write_working = False,
      efd_read = Some 0, efd_write = Some 0, efd_empty = Some 0, need_empty = False,
      initialized = True, repo_status = INIT, calls = []\<rparr>"

text \<open>Callbacks for records that are numbers: a launch fails on an odd record.\<close>

definition parity_callbacks :: "nat CallBackManager" where
  "parity_callbacks =
     \<lparr>execFunc = Some (\<lambda>x. int (x mod 2)), copyFunc = Some (\<lambda>x. x), releaseFunc = True, deleteFunc = True\<rparr>"

text \<open>A ring that wraps around: three records in the slots 4094, 4095 and 0, the first of them odd.\<close>

definition wrapped_ring :: "nat Repository" where
  "wrapped_ring =
     (InitRepo 0)\<lparr>datas := (\<lambda>i. if i = 4094 then 7 else 0), read_idx := 4094, write_idx := 1,
                  repo_status := RUN\<rparr>"

section \<open>The in-place xlogy operator\<close>

text \<open>
  What an \<open>at::Tensor\<close> expression denotes: a tensor, or the storage of a local
  \<open>at::Tensor\<close> whose constructor has not run yet. A kernel launch and the calls into
  \<open>NpuUtils\<close> and \<open>CalcuOpUtil\<close> are logged in order.
\<close>

datatype tensor = Tensor nat | Unconstructed string

datatype 'sc input = TensorInput tensor | ScalarInput 'sc tensor

record 'sc OpCommand =
  Name :: string
  Inputs :: "'sc input list"
  Outputs :: "tensor list"

datatype 'sc action =
    Run "'sc OpCommand"
  | CheckMemoryOverLaps "tensor list" "tensor list"
  | format_fresh_view tensor tensor

record NpuUtils =
  check_match :: "tensor \<Rightarrow> bool"
  format_contiguous :: "tensor \<Rightarrow> tensor"

text \<open>
  \<open>T x = init;\<close> The name \<open>x\<close> is in scope in its own initialiser, where it denotes the
  storage of \<open>x\<close> before construction; \<open>x\<close> is then constructed from the value of the
  initialiser.
\<close>

definition declare_init :: "string \<Rightarrow> (tensor \<Rightarrow> tensor \<times> 'w) \<Rightarrow> tensor \<times> 'w" where
  "declare_init x init = init (Unconstructed x)"

text \<open>The Tensor-Tensor and the Tensor-Scalar overload of \<open>xlogy_out_npu_nocheck\<close>.\<close>

definition xlogy_out_npu_nocheck :: "tensor \<Rightarrow> tensor \<Rightarrow> tensor \<Rightarrow> tensor \<times> 'sc action list" where
  "xlogy_out_npu_nocheck self other result =
     (result, [Run \<lparr>Name = ''Xlogy'', Inputs = [TensorInput self, TensorInput other], Outputs = [result]\<rparr>])"

definition xlogy_out_npu_nocheck_scalar :: "tensor \<Rightarrow> 'sc \<Rightarrow> tensor \<Rightarrow> tensor \<times> 'sc action list" where
  "xlogy_out_npu_nocheck_scalar self other result =
     (result, [Run \<lparr>Name = ''Xlogy'', Inputs = [TensorInput self, ScalarInput other self], Outputs = [result]\<rparr>])"

text \<open>The two overloads of \<open>xlogy_\<close>; each returns \<open>self\<close>, so the model returns what it did.\<close>

definition xlogy_inplace :: "NpuUtils \<Rightarrow> tensor \<Rightarrow> tensor \<Rightarrow> 'sc action list" where
  "xlogy_inplace utils self other =
     CheckMemoryOverLaps [self, other] [self] #
     (if \<not> check_match utils self
      then (let contiguousSelf = format_contiguous utils self in
            case declare_init ''result'' (\<lambda>result. xlogy_out_npu_nocheck contiguousSelf other contiguousSelf) of
              (result, acts) \<Rightarrow> acts @ [format_fresh_view self result])
      else snd (xlogy_out_npu_nocheck self other self))"

definition xlogy_inplace_scalar :: "NpuUtils \<Rightarrow> tensor \<Rightarrow> 'sc \<Rightarrow> 'sc action list" where
  "xlogy_inplace_scalar utils self other =
     (if \<not> check_match utils self
      then (let contiguousSelf = format_contiguous utils self in
            case declare_init ''result'' (\<lambda>result. xlogy_out_npu_nocheck_scalar contiguousSelf other result) of
              (result, acts) \<Rightarrow> acts @ [format_fresh_view self result])
      else snd (xlogy_out_npu_nocheck_scalar self other self))"

text \<open>Utilities that find no tensor contiguous and copy tensor \<open>n\<close> into tensor \<open>n + 1\<close>.\<close>

definition strided_utils :: NpuUtils where
  "strided_utils =
     \<lparr>check_match = (\<lambda>_. False),
      format_contiguous = (\<lambda>t. case t of Tensor n \<Rightarrow> Tensor (Suc n) | Unconstructed x \<Rightarrow> Unconstructed x)\<rparr>"

section \<open>Well-formed pools and sample states\<close>

text \<open>
  The ordering a \<open>std::set\<close> keeps: no element compares less than one before it. Two
  heaps with the \<open>same_keys\<close> order every pool alike.
\<close>

definition pool_sorted :: "(nat \<Rightarrow> Block) \<Rightarrow> nat list \<Rightarrow> bool" where
  "pool_sorted h xs = sorted_wrt (\<lambda>a b. \<not> BlockComparator (h b) (h a)) xs"

definition same_keys :: "(nat \<Rightarrow> Block) \<Rightarrow> (nat \<Rightarrow> Block) \<Rightarrow> bool" where
  "same_keys h h' = (\<forall>x. stream (h' x) = stream (h x) \<and> size_b (h' x) = size_b (h x)
                        \<and> ptr (h' x) = ptr (h x) \<and> pool (h' x) = pool (h x))"

text \<open>
  A driver that grants every allocation at address 4096, reports every event as
  complete, has no callback that frees memory, and reads \<open>False\<close> from memory that was
  never written.
\<close>

definition granting_driver :: driver where
  "granting_driver =
     \<lparr>malloc_result = (\<lambda>_ _. (ACL_ERROR_NONE, 4096)), query_result = (\<lambda>_ _. True),
      callbacks_result = (\<lambda>_. False), indeterminate = (\<lambda>_ _. False)\<rparr>"

text \<open>The configuration that \<open>max_split_size_mb:22\<close> gives.\<close>

definition config_22MiB :: CachingAllocatorConfig where
  "config_22MiB = \<lparr>m_max_split_size = 23068672, m_garbage_collection_threshold = 0\<rparr>"

text \<open>
  An allocator whose large pool caches one whole segment of \<open>sz\<close> bytes, allocated on
  stream 1 and freed again.
\<close>

definition one_cached_segment :: "CachingAllocatorConfig \<Rightarrow> size_t \<Rightarrow> DeviceCachingAllocator" where
  "one_cached_segment cfg sz =
     (new_DeviceCachingAllocator cfg)
       \<lparr>heap := (heap (new_DeviceCachingAllocator cfg))(0 := new_Block 0 1 sz LargeBlocks 4096),
        next_block := 1, trace := [AclrtMallocAlign32 sz], large_blocks := [0],
        total_allocated_memory := sz\<rparr>"

text \<open>
  Garbage collection at half of the cap: \<open>garbage_collection_threshold:0.5\<close>, and a memory
  fraction that allows 100 MiB, on an allocator that caches one segment of 60 MiB.
\<close>

definition config_gc_half :: CachingAllocatorConfig where
  "config_gc_half = \<lparr>m_max_split_size = size_t_max, m_garbage_collection_threshold = 1 / 2\<rparr>"

definition over_threshold :: DeviceCachingAllocator where
  "over_threshold =
     (one_cached_segment config_gc_half 62914560)\<lparr>allowed_memory_maximum := 104857600, set_fraction := True\<rparr>"

section \<open>Coherence of the statistics\<close>










text \<open>A \<open>StatTypes\<close> that selects the aggregate and exactly one pool.\<close>

definition proper :: "StatTypes \<Rightarrow> bool" where
  "proper sel = (sel AGGREGATE \<and> (sel SMALL_POOL \<noteq> sel LARGE_POOL))"






section \<open>What the state helpers touch\<close>

lemma upd_stats_fields [simp]:
  "stats (upd_stats f s) = f (stats s)"
  "heap (upd_stats f s) = heap s"
  "next_block (upd_stats f s) = next_block s"
  "trace (upd_stats f s) = trace s"
  "large_blocks (upd_stats f s) = large_blocks s"
  "small_blocks (upd_stats f s) = small_blocks s"
  "active_blocks (upd_stats f s) = active_blocks s"
  "npu_events (upd_stats f s) = npu_events s"
  "total_allocated_memory (upd_stats f s) = total_allocated_memory s"
  "allowed_memory_maximum (upd_stats f s) = allowed_memory_maximum s"
  "set_fraction (upd_stats f s) = set_fraction s"
  "shutdown_stats (upd_stats f s) = shutdown_stats s"
  by (simp_all add: upd_stats_def)

lemma upd_block_fields [simp]:
  "heap (upd_block b f s) = (heap s)(b := f (heap s b))"
  "stats (upd_block b f s) = stats s"
  "next_block (upd_block b f s) = next_block s"
  "trace (upd_block b f s) = trace s"
  "large_blocks (upd_block b f s) = large_blocks s"
  "small_blocks (upd_block b f s) = small_blocks s"
  "active_blocks (upd_block b f s) = active_blocks s"
  "npu_events (upd_block b f s) = npu_events s"
  "total_allocated_memory (upd_block b f s) = total_allocated_memory s"
  "allowed_memory_maximum (upd_block b f s) = allowed_memory_maximum s"
  "set_fraction (upd_block b f s) = set_fraction s"
  "shutdown_stats (upd_block b f s) = shutdown_stats s"
  by (simp_all add: upd_block_def)

lemma log_call_fields [simp]:
  "trace (log_call c s) = trace s @ [c]"
  "stats (log_call c s) = stats s"
  "heap (log_call c s) = heap s"
  "next_block (log_call c s) = next_block s"
  "large_blocks (log_call c s) = large_blocks s"
  "small_blocks (log_call c s) = small_blocks s"
  "active_blocks (log_call c s) = active_blocks s"
  "npu_events (log_call c s) = npu_events s"
  "total_allocated_memory (log_call c s) = total_allocated_memory s"
  "allowed_memory_maximum (log_call c s) = allowed_memory_maximum s"
  "set_fraction (log_call c s) = set_fraction s"
  "shutdown_stats (log_call c s) = shutdown_stats s"
  by (simp_all add: log_call_def)

lemma set_blocks_fields [simp]:
  "blocks_of pl (set_blocks pl xs s) = xs"
  "stats (set_blocks pl xs s) = stats s"
  "heap (set_blocks pl xs s) = heap s"
  "next_block (set_blocks pl xs s) = next_block s"
  "trace (set_blocks pl xs s) = trace s"
  "active_blocks (set_blocks pl xs s) = active_blocks s"
  "npu_events (set_blocks pl xs s) = npu_events s"
  "total_allocated_memory (set_blocks pl xs s) = total_allocated_memory s"
  "allowed_memory_maximum (set_blocks pl xs s) = allowed_memory_maximum s"
  "set_fraction (set_blocks pl xs s) = set_fraction s"
  "shutdown_stats (set_blocks pl xs s) = shutdown_stats s"
  by (simp_all add: set_blocks_def blocks_of_def)

lemma new_object_fields [simp]:
  "heap (new_object blk s) = (heap s)(next_block s := blk)"
  "next_block (new_object blk s) = Suc (next_block s)"
  "stats (new_object blk s) = stats s"
  "trace (new_object blk s) = trace s"
  "large_blocks (new_object blk s) = large_blocks s"
  "small_blocks (new_object blk s) = small_blocks s"
  "active_blocks (new_object blk s) = active_blocks s"
  "npu_events (new_object blk s) = npu_events s"
  "total_allocated_memory (new_object blk s) = total_allocated_memory s"
  "allowed_memory_maximum (new_object blk s) = allowed_memory_maximum s"
  "set_fraction (new_object blk s) = set_fraction s"
  "shutdown_stats (new_object blk s) = shutdown_stats s"
  "blocks_of pl (new_object blk s) = blocks_of pl s"
  by (simp_all add: new_object_def blocks_of_def)

lemma blocks_of_fields [simp]:
  "blocks_of pl (upd_stats f s) = blocks_of pl s"
  "blocks_of pl (upd_block b g s) = blocks_of pl s"
  "blocks_of pl (log_call c s) = blocks_of pl s"
  "blocks_of pl (s\<lparr>active_blocks := ab\<rparr>) = blocks_of pl s"
  "blocks_of pl (s\<lparr>total_allocated_memory := tm\<rparr>) = blocks_of pl s"
  "blocks_of pl (s\<lparr>npu_events := ev\<rparr>) = blocks_of pl s"
  by (simp_all add: blocks_of_def)

lemma new_allocator_fields [simp]:
  "stats (new_DeviceCachingAllocator cfg) = zero_DeviceStats\<lparr>max_split_size := m_max_split_size cfg\<rparr>"
  "next_block (new_DeviceCachingAllocator cfg) = 0"
  "trace (new_DeviceCachingAllocator cfg) = []"
  "large_blocks (new_DeviceCachingAllocator cfg) = []"
  "small_blocks (new_DeviceCachingAllocator cfg) = []"
  "active_blocks (new_DeviceCachingAllocator cfg) = {}"
  "npu_events (new_DeviceCachingAllocator cfg) = []"
  "total_allocated_memory (new_DeviceCachingAllocator cfg) = 0"
  "\<not> set_fraction (new_DeviceCachingAllocator cfg)"
  "\<not> shutdown_stats (new_DeviceCachingAllocator cfg)"
  "blocks_of pl (new_DeviceCachingAllocator cfg) = []"
  by (simp_all add: new_DeviceCachingAllocator_def blocks_of_def)

section \<open>Rounding to double\<close>

text \<open>Numbers with at most 53 bits are doubles, and \<open>ilog2\<close> is the binary exponent.\<close>

lemma round_half_even_int [simp]: "round_half_even (of_int m) = m"
  by (simp add: round_half_even_def)

lemma ilog2_nat:
  assumes "0 < n"
  shows "ilog2 (real n) = int (floorlog 2 n) - 1"
  using assms by (simp add: ilog2_def bitlen_def)

lemma to_double_exact:
  assumes "n < 2 ^ 53"
  shows "to_double (real n) = real n"
proof (cases "n = 0")
  case True
  then show ?thesis by (simp add: to_double_def)
next
  case False
  then have pos: "0 < n" by simp
  let ?f = "floorlog 2 n"
  have f1: "1 \<le> ?f"
    using pos by (simp add: floorlog_def)
  have f53: "?f \<le> 53"
    using assms by (simp add: floorlog_le_iff)
  define k where "k = 53 - ?f"
  have e: "max (ilog2 \<bar>real n\<bar>) (- 1022) - 52 = - int k"
    using f1 f53 pos by (simp add: ilog2_nat k_def)
  have u: "(2 :: real) powi (- int k) = 1 / 2 ^ k"
    by (simp add: power_int_minus field_simps)
  have q: "real n / (1 / 2 ^ k) = of_int (int n * 2 ^ k)"
    by simp
  show ?thesis
    using pos unfolding to_double_def Let_def e u q round_half_even_int
    by simp
qed


lemma ilog2_bounds:
  assumes "0 < x"
  shows "2 powi ilog2 x \<le> x \<and> x < 2 powi (ilog2 x + 1)"
proof (cases "1 \<le> x")
  case True
  let ?m = "\<lfloor>x\<rfloor>"
  have m: "0 < ?m" using True by simp
  have b1: "1 \<le> bitlen ?m"
    using m by (simp add: bitlen_alt_def)
  from bitlen_bounds [OF m]
  have lo: "2 ^ nat (bitlen ?m - 1) \<le> ?m" and hi: "?m < 2 ^ nat (bitlen ?m)" by simp_all
  have "real_of_int (2 ^ nat (bitlen ?m - 1)) \<le> real_of_int ?m"
    using lo by (simp only: of_int_le_iff)
  then have l: "(2 :: real) ^ nat (bitlen ?m - 1) \<le> x"
    by (simp add: le_floor_iff)
  have "?m + 1 \<le> 2 ^ nat (bitlen ?m)" using hi by simp
  then have "real_of_int (?m + 1) \<le> real_of_int (2 ^ nat (bitlen ?m))"
    by (simp only: of_int_le_iff)
  then have "real_of_int ?m + 1 \<le> 2 ^ nat (bitlen ?m)" by simp
  moreover have "x < real_of_int ?m + 1" by linarith
  ultimately have h: "x < (2 :: real) ^ nat (bitlen ?m)" by linarith
  have e: "ilog2 x = bitlen ?m - 1" using True by (simp add: ilog2_def)
  show ?thesis
    using l h b1 by (simp add: e power_int_def)
next
  case False
  let ?c = "\<lceil>1 / x\<rceil> - 1"
  have y: "1 < 1 / x" using False assms by simp
  have c: "0 < ?c" using y by (simp add: less_ceiling_iff)
  have b1: "1 \<le> bitlen ?c"
    using c by (simp add: bitlen_alt_def)
  from bitlen_bounds [OF c]
  have lo: "2 ^ nat (bitlen ?c - 1) \<le> ?c" and hi: "?c < 2 ^ nat (bitlen ?c)" by simp_all
  have "?c + 1 \<le> 2 ^ nat (bitlen ?c)" using hi by simp
  then have "real_of_int (?c + 1) \<le> real_of_int (2 ^ nat (bitlen ?c))"
    by (simp only: of_int_le_iff)
  then have "real_of_int ?c + 1 \<le> 2 ^ nat (bitlen ?c)" by simp
  moreover have "1 / x \<le> real_of_int ?c + 1" by simp
  ultimately have "1 / x \<le> (2 :: real) ^ nat (bitlen ?c)" by linarith
  then have l: "1 / (2 :: real) ^ nat (bitlen ?c) \<le> x"
    using assms by (simp add: field_simps)
  have "real_of_int (2 ^ nat (bitlen ?c - 1)) \<le> real_of_int ?c"
    using lo by (simp only: of_int_le_iff)
  moreover have "real_of_int ?c < 1 / x"
    using ceiling_correct [of "1 / x"] by simp
  ultimately have "(2 :: real) ^ nat (bitlen ?c - 1) < 1 / x" by simp
  then have h: "x < 1 / (2 :: real) ^ nat (bitlen ?c - 1)"
    using assms by (simp add: field_simps)
  have e: "ilog2 x = - bitlen ?c" using False by (simp add: ilog2_def)
  have n: "nat (bitlen ?c - 1) = nat (bitlen ?c) - 1" by simp
  show ?thesis
  proof (cases "bitlen ?c = 1")
    case True
    with l h show ?thesis by (simp add: e power_int_def)
  next
    case F: False
    with b1 have "1 < bitlen ?c" by simp
    with l h show ?thesis
      by (simp add: e power_int_def n field_simps nat_diff_distrib)
  qed
qed

text \<open>
  The threshold \<open>0.06\<close> is the double \<open>8646911284551352 / 2^57\<close>. Its product with
  209715200 lies just below 12582912 and the multiplication rounds it up to 12582912.
\<close>

lemma gc_threshold_sample:
  "to_double (8646911284551352 / 2 ^ 57 * to_double 209715200) = 12582912"
  "\<lfloor>8646911284551352 / 2 ^ 57 * (209715200 :: real)\<rfloor> = 12582911"
proof -
  let ?x = "27021597764222975 / 2147483648 :: real"
  have a: "to_double 209715200 = 209715200"
    using to_double_exact [of 209715200] by simp
  have x: "8646911284551352 / 2 ^ 57 * (209715200 :: real) = ?x"
    by simp
  have fl: "\<lfloor>?x\<rfloor> = 12582911"
    by (simp add: floor_eq_iff)
  have bl: "bitlen 12582911 = 24"
    by (simp add: compute_bitlen)
  have il: "max (ilog2 \<bar>?x\<bar>) (- 1022) - 52 = - 29"
    by (simp add: ilog2_def fl bl)
  have u: "(2 :: real) powi (- 29) = 1 / 536870912"
    by (simp add: power_int_def power_one_over)
  have q: "?x / (1 / 536870912) = 27021597764222975 / 4"
    by simp
  have f2: "\<lfloor>27021597764222975 / 4 :: real\<rfloor> = 6755399441055743"
    by (simp add: floor_eq_iff)
  have r: "round_half_even (27021597764222975 / 4) = 6755399441055744"
    by (simp add: round_half_even_def f2)
  have "to_double ?x = 12582912"
    unfolding to_double_def Let_def il u q r by simp
  then show "to_double (8646911284551352 / 2 ^ 57 * to_double 209715200) = 12582912"
    by (simp only: a x)
  show "\<lfloor>8646911284551352 / 2 ^ 57 * (209715200 :: real)\<rfloor> = 12582911"
    unfolding x by (rule fl)
qed

text \<open>
  A device total of \<open>2^53 + 1\<close> bytes is not a double: the conversion rounds it to
  \<open>2^53\<close>, and the whole fraction of it is \<open>2^53\<close> bytes.
\<close>

lemma memory_fraction_sample:
  "allowed_memory_maximum (setMemoryFraction 1 9007199254740993 s) = 9007199254740992"
proof -
  let ?x = "9007199254740993 :: real"
  have bl: "bitlen 9007199254740993 = 54"
    by (simp add: compute_bitlen)
  have il: "max (ilog2 \<bar>?x\<bar>) (- 1022) - 52 = 1"
    by (simp add: ilog2_def bl)
  have f: "\<lfloor>?x / 2\<rfloor> = 4503599627370496"
    by (simp add: floor_eq_iff)
  have r: "round_half_even (?x / 2) = 4503599627370496"
    by (simp add: round_half_even_def f)
  have a: "to_double ?x = 9007199254740992"
    unfolding to_double_def Let_def il by (simp add: r)
  have bl': "bitlen 9007199254740992 = 54"
    by (simp add: compute_bitlen)
  have il': "max (ilog2 \<bar>9007199254740992 :: real\<bar>) (- 1022) - 52 = 1"
    by (simp add: ilog2_def bl')
  have r': "round_half_even 4503599627370496 = 4503599627370496"
    by (simp add: round_half_even_def)
  have b: "to_double 9007199254740992 = 9007199254740992"
    unfolding to_double_def Let_def il' by (simp add: r')
  show ?thesis
    by (simp add: setMemoryFraction_def a b cast_size_t_def)
qed

section \<open>Size rounding\<close>

lemma round_size_exact:
  assumes "unat n + 543 < 2 ^ 64"
  shows "unat (round_size n) = max 512 (512 * ((unat n + 32 + 511) div 512))"
proof -
  have a: "unat (n + 32) = unat n + 32"
    using assms by (simp add: unat_word_ariths)
  have b: "unat (n + 32 + 512 - 1) = unat n + 543"
    using assms by (simp add: unat_word_ariths)
  have c: "unat ((n + 32 + 512 - 1) div 512) = (unat n + 543) div 512"
    using b by (simp add: unat_div)
  have "512 * ((unat n + 543) div 512) \<le> unat n + 543"
    by simp
  then have d: "512 * ((unat n + 543) div 512) < (2::nat) ^ 64"
    using assms by linarith
  have e: "unat (512 * ((n + 32 + 512 - 1) div 512)) = 512 * ((unat n + 543) div 512)"
    using c d by (simp add: unat_word_ariths)
  show ?thesis
    using a e by (auto simp: round_size_def Let_def kMinBlockSize_def word_less_nat_alt max_def)
qed

text \<open>
  C8, as the code has it. \<open>round_size\<close> is the block size \<open>malloc\<close> works with. For every
  request \<open>n\<close> whose padded size \<open>n + 32 + 511\<close> still fits in a \<open>size_t\<close>, it is
  \<open>max(512, 512 * ceil((n + 32) / 512))\<close>; a request of one byte is rounded to 512 bytes
  and served from the small pool.
\<close>

theorem C8_round_size:
  "(unat n + 543 < 2 ^ 64 \<longrightarrow>
      unat (round_size n) = max 512 (512 * ((unat n + 32 + 511) div 512)))
   \<and> round_size 1 = 512 \<and> get_pool (round_size 1) = SmallBlocks"
proof -
  have "round_size 1 = 512"
    by (simp add: round_size_def kMinBlockSize_def)
  moreover have "get_pool (512 :: size_t) = SmallBlocks"
    by (simp add: get_pool_def kSmallSize_def)
  ultimately show ?thesis
    using round_size_exact [of n] by simp
qed

theorem C8_round_size_witness:
  "unat (1000 :: size_t) + 543 < 2 ^ 64 \<and> unat (round_size 1000) = 1536"
  using C8_round_size [of 1000] by simp

text \<open>
  C8 as stated, for every \<open>n\<close>, fails where the padding wraps around: the largest
  \<open>size_t\<close> is rounded to 512 bytes.
\<close>

theorem C8_round_size_wraps:
  "unat (round_size 18446744073709551615)
     \<noteq> max 512 (512 * ((unat (18446744073709551615 :: size_t) + 32 + 511) div 512))"
  by (simp add: round_size_def kMinBlockSize_def)

section \<open>Freeing a null pointer\<close>

text \<open>
  C10. \<open>raw_delete\<close> of the null pointer returns at once, raises nothing, and leaves the
  whole allocator as it was: the pointer table, every device allocator (pools, active
  set, pending events, statistics) and the process memory.
\<close>

theorem C10_raw_delete_null:
  "raw_delete cfg 0 t = (Inr (), t)"
  by (simp add: raw_delete_def THN_free_def)

section \<open>Reusing an oversize block\<close>

lemma lower_bound_le: "lower_bound h xs k \<le> length xs"
  by (simp add: lower_bound_def length_takeWhile_le)

lemma lower_bound_finds:
  assumes "pool_sorted h xs" and "b \<in> set xs" and "\<not> BlockComparator (h b) k"
  shows "lower_bound h xs k < length xs
         \<and> \<not> BlockComparator (h (xs ! lower_bound h xs k)) k
         \<and> \<not> BlockComparator (h b) (h (xs ! lower_bound h xs k))"
proof -
  let ?P = "\<lambda>a. BlockComparator (h a) k"
  let ?i = "lower_bound h xs k"
  have i: "?i = length (takeWhile ?P xs)" by (simp add: lower_bound_def)
  have lt: "?i < length xs"
  proof (rule ccontr)
    assume "\<not> ?i < length xs"
    then have "length (takeWhile ?P xs) = length xs"
      using i length_takeWhile_le [of ?P xs] by simp
    then have "takeWhile ?P xs = xs"
      by (metis takeWhile_dropWhile_id append_eq_conv_conj length_0_conv length_append add_cancel_right_right append_Nil2)
    then have "\<forall>a \<in> set xs. ?P a"
      by (metis set_takeWhileD)
    with assms(2,3) show False by blast
  qed
  have np: "\<not> ?P (xs ! ?i)"
    using lt i nth_length_takeWhile [of ?P xs] by simp
  obtain j where j: "j < length xs" "xs ! j = b"
    using assms(2) by (auto simp: in_set_conv_nth)
  have "\<not> j < ?i"
  proof
    assume "j < ?i"
    then have "?P (xs ! j)"
      unfolding i by (metis takeWhile_nth nth_mem set_takeWhileD)
    with j assms(3) show False by simp
  qed
  then have ge: "?i \<le> j" by simp
  have "\<not> BlockComparator (h b) (h (xs ! ?i))"
  proof (cases "?i = j")
    case True
    with j show ?thesis by (simp add: BlockComparator_def)
  next
    case False
    with ge have "?i < j" by simp
    with assms(1) j show ?thesis
      unfolding pool_sorted_def by (auto simp: sorted_wrt_iff_nth_less)
  qed
  with lt np show ?thesis by blast
qed


lemma age_blocks_keys:
  "same_keys (heap s) (heap (age_blocks cfg pl s))
   \<and> large_blocks (age_blocks cfg pl s) = large_blocks s
   \<and> small_blocks (age_blocks cfg pl s) = small_blocks s"
proof -
  have "same_keys (heap s) (heap (fold (\<lambda>b. upd_block b (\<lambda>x. x\<lparr>gc_count := gc_count x + 1\<rparr>)) xs s))
   \<and> large_blocks (fold (\<lambda>b. upd_block b (\<lambda>x. x\<lparr>gc_count := gc_count x + 1\<rparr>)) xs s) = large_blocks s
   \<and> small_blocks (fold (\<lambda>b. upd_block b (\<lambda>x. x\<lparr>gc_count := gc_count x + 1\<rparr>)) xs s) = small_blocks s" for xs
  proof (induction xs arbitrary: s)
    case Nil
    show ?case by (simp add: same_keys_def)
  next
    case (Cons a xs)
    have "same_keys (heap s) (heap (upd_block a (\<lambda>x. x\<lparr>gc_count := gc_count x + 1\<rparr>) s))"
      by (simp add: same_keys_def upd_block_def)
    moreover have "large_blocks (upd_block a f s) = large_blocks s" "small_blocks (upd_block a f s) = small_blocks s" for f
      by (simp_all add: upd_block_def)
    ultimately show ?case
      using Cons.IH [of "upd_block a (\<lambda>x. x\<lparr>gc_count := gc_count x + 1\<rparr>) s"]
      by (auto simp: same_keys_def)
  qed
  then show ?thesis
    by (simp add: age_blocks_def same_keys_def)
qed

lemma same_keys_comparator:
  "same_keys h h' \<Longrightarrow> BlockComparator (h' a) (h' b) = BlockComparator (h a) (h b)"
  "same_keys h h' \<Longrightarrow> BlockComparator (h' a) k = BlockComparator (h a) k"
  by (simp_all add: same_keys_def BlockComparator_def)

lemma same_keys_sorted: "same_keys h h' \<Longrightarrow> pool_sorted h' xs = pool_sorted h xs"
  by (simp add: pool_sorted_def same_keys_comparator)

lemma oversize_is_large:
  assumes "kLargeBuffer < m_max_split_size cfg" "m_max_split_size cfg \<le> Q"
  shows "get_pool Q = LargeBlocks"
proof -
  have "kSmallSize < kLargeBuffer" by (simp add: k_defs)
  with assms have "kSmallSize < Q" by simp
  then show ?thesis by (simp add: get_pool_def)
qed


lemma lower_bound_not_less:
  "lower_bound h xs k < length xs \<Longrightarrow> \<not> BlockComparator (h (xs ! lower_bound h xs k)) k"
  using nth_length_takeWhile [of "\<lambda>a. BlockComparator (h a) k" xs]
  by (simp add: lower_bound_def)

lemma parseMaxSplitSize_large:
  assumes "parseMaxSplitSize v = Inr m"
  shows "kLargeBuffer < m"
proof -
  let ?a = "scast v :: size_t"
  let ?w = "min (max ?a 20) (17592186044415 :: size_t)"
  have d: "kLargeBuffer div 1048576 = (20 :: size_t)" "size_t_max div 1048576 = (17592186044415 :: size_t)"
    by (simp_all add: k_defs size_t_max_def)
  from assms have gt: "20 < ?a" and m: "m = ?w * 1024 * 1024"
    by (auto simp: parseMaxSplitSize_def Let_def d split: if_splits)
  have lo: "20 < unat ?w"
    using gt by (simp add: word_less_nat_alt min_def max_def word_le_nat_alt)
  have hi: "unat ?w \<le> 17592186044415"
    by (simp add: min_def word_le_nat_alt)
  have "unat m = unat ?w * 1048576"
    using hi by (simp add: m unat_word_ariths)
  with lo show ?thesis
    by (simp add: word_less_nat_alt k_defs)
qed


lemma configured_split_size:
  "m_max_split_size cfg = size_t_max \<or> parseMaxSplitSize v = Inr (m_max_split_size cfg)
     \<Longrightarrow> kLargeBuffer < m_max_split_size cfg"
  using parseMaxSplitSize_large [of v "m_max_split_size cfg"]
  by (auto simp: size_t_max_def k_defs)

text \<open>
  C2, as the code has it. The configuration is the default one or one that
  \<open>parseMaxSplitSize\<close> accepted, the request has rounded size \<open>Q\<close>, at least
  \<open>max_split_size\<close>, \<open>Q + 20 MiB\<close> does not wrap around, and the pool is ordered as its
  \<open>std::set\<close> keeps it and holds blocks that name it as their pool. Then \<open>get_free_block\<close>
  succeeds exactly when the pool holds a block on the request's stream whose size lies in
  the half-open interval from \<open>Q\<close> up to, but not including, \<open>Q + 20 MiB\<close>. When it
  succeeds, the block it returns is on that stream and in that interval, no block of the
  stream of size at least \<open>Q\<close> is smaller, the block is taken out of the pool, and
  \<open>should_split\<close> refuses to split it. When the pool holds no block of the stream in the
  interval, as when the smallest candidate has exactly \<open>Q + 20 MiB\<close>, \<open>get_free_block\<close>
  returns \<open>false\<close> and hands out no block.
\<close>

theorem C2_oversize_reuse:
  assumes cfg: "m_max_split_size cfg = size_t_max \<or> parseMaxSplitSize v = Inr (m_max_split_size cfg)"
    and Q: "m_max_split_size cfg \<le> Q"
    and nowrap: "unat Q + unat kLargeBuffer < 2 ^ 64"
    and key: "search_key p = key_Block dev strm Q (get_pool Q)" "pool_p p = get_pool Q"
    and sorted: "pool_sorted (heap s) (blocks_of (get_pool Q) s)"
    and own: "\<forall>x \<in> set (blocks_of (get_pool Q) s). pool (heap s x) = get_pool Q"
  shows "((\<exists>b \<in> set (blocks_of (get_pool Q) s). stream (heap s b) = strm
             \<and> unat Q \<le> unat (size_b (heap s b)) \<and> unat (size_b (heap s b)) < unat Q + unat kLargeBuffer)
          \<longrightarrow> (\<exists>b' p' s'. get_free_block cfg p s = (True, p', s') \<and> block p' = Some b'
                 \<and> b' \<in> set (blocks_of (get_pool Q) s)
                 \<and> stream (heap s' b') = strm
                 \<and> unat Q \<le> unat (size_b (heap s' b')) \<and> unat (size_b (heap s' b')) < unat Q + unat kLargeBuffer
                 \<and> (\<forall>b \<in> set (blocks_of (get_pool Q) s).
                       stream (heap s b) = strm \<and> unat Q \<le> unat (size_b (heap s b))
                       \<longrightarrow> unat (size_b (heap s' b')) \<le> unat (size_b (heap s b)))
                 \<and> (\<exists>i < length (blocks_of (get_pool Q) s). blocks_of (get_pool Q) s ! i = b'
                       \<and> blocks_of (get_pool Q) s' = erase_at i (blocks_of (get_pool Q) s))
                 \<and> \<not> should_split cfg (heap s' b') Q))
         \<and> (\<not> (\<exists>b \<in> set (blocks_of (get_pool Q) s). stream (heap s b) = strm
                 \<and> unat Q \<le> unat (size_b (heap s b)) \<and> unat (size_b (heap s b)) < unat Q + unat kLargeBuffer)
          \<longrightarrow> get_free_block cfg p s = (False, p, age_blocks cfg (get_pool Q) s))"
proof -
  have big: "kLargeBuffer < m_max_split_size cfg"
    using configured_split_size [OF cfg] .
  have large: "get_pool Q = LargeBlocks"
    using oversize_is_large [OF big Q] .
  let ?xs = "large_blocks s"
  have xs: "blocks_of (get_pool Q) s = ?xs"
    by (simp add: large blocks_of_def is_small_def)
  let ?s1 = "age_blocks cfg LargeBlocks s"
  have sk: "same_keys (heap s) (heap ?s1)" and xs1: "large_blocks ?s1 = ?xs"
    using age_blocks_keys [of s cfg LargeBlocks] by simp_all
  let ?k = "search_key p"
  let ?i = "lower_bound (heap ?s1) ?xs ?k"
  let ?x = "?xs ! ?i"
  have kf: "stream ?k = strm" "size_b ?k = Q" "ptr ?k = 0"
    by (simp_all add: key key_Block_def new_Block_def)
  have sum: "unat (Q + kLargeBuffer) = unat Q + unat kLargeBuffer"
    using nowrap by (simp add: unat_word_ariths)
  have srt: "pool_sorted (heap ?s1) ?xs"
    using sorted same_keys_sorted [OF sk] xs by simp
  have n1: "\<not> Q < m_max_split_size cfg" using Q by (simp add: not_less)
  have same: "stream (heap ?s1 a) = stream (heap s a)" "size_b (heap ?s1 a) = size_b (heap s a)"
    "pool (heap ?s1 a) = pool (heap s a)" for a
    using sk by (simp_all add: same_keys_def)
  have least: "?i < length ?xs \<and> stream (heap s ?x) = strm \<and> Q \<le> size_b (heap s ?x)
                 \<and> size_b (heap s ?x) \<le> size_b (heap s b)"
    if b: "b \<in> set ?xs" "stream (heap s b) = strm" "unat Q \<le> unat (size_b (heap s b))" for b
  proof -
    have wQ: "Q \<le> size_b (heap s b)"
      using b(3) by (simp add: word_le_nat_alt)
    have nb: "\<not> BlockComparator (heap ?s1 b) ?k"
      using b(2) wQ by (auto simp: BlockComparator_def kf same)
    from lower_bound_finds [OF srt b(1) nb]
    have lt: "?i < length ?xs" and nk: "\<not> BlockComparator (heap ?s1 ?x) ?k"
      and nx: "\<not> BlockComparator (heap ?s1 b) (heap ?s1 ?x)"
      by simp_all
    have xstream: "stream (heap s ?x) = strm"
      using nk nx b(2) by (auto simp: BlockComparator_def kf same split: if_splits)
    have xlo: "Q \<le> size_b (heap s ?x)"
      using nk xstream by (auto simp: BlockComparator_def kf same split: if_splits)
    have xhi: "size_b (heap s ?x) \<le> size_b (heap s b)"
      using nx xstream b(2) by (auto simp: BlockComparator_def same split: if_splits)
    from lt xstream xlo xhi show ?thesis by simp
  qed
  let ?A = "\<exists>b \<in> set (blocks_of (get_pool Q) s). stream (heap s b) = strm
             \<and> unat Q \<le> unat (size_b (heap s b)) \<and> unat (size_b (heap s b)) < unat Q + unat kLargeBuffer"
  have pos: "\<exists>b' p' s'. get_free_block cfg p s = (True, p', s') \<and> block p' = Some b'
                 \<and> b' \<in> set (blocks_of (get_pool Q) s)
                 \<and> stream (heap s' b') = strm
                 \<and> unat Q \<le> unat (size_b (heap s' b')) \<and> unat (size_b (heap s' b')) < unat Q + unat kLargeBuffer
                 \<and> (\<forall>b \<in> set (blocks_of (get_pool Q) s).
                       stream (heap s b) = strm \<and> unat Q \<le> unat (size_b (heap s b))
                       \<longrightarrow> unat (size_b (heap s' b')) \<le> unat (size_b (heap s b)))
                 \<and> (\<exists>i < length (blocks_of (get_pool Q) s). blocks_of (get_pool Q) s ! i = b'
                       \<and> blocks_of (get_pool Q) s' = erase_at i (blocks_of (get_pool Q) s))
                 \<and> \<not> should_split cfg (heap s' b') Q" if ?A
  proof -
    from that obtain b where b: "b \<in> set ?xs" "stream (heap s b) = strm"
      "unat Q \<le> unat (size_b (heap s b))" "unat (size_b (heap s b)) < unat Q + unat kLargeBuffer"
      using xs by auto
    from least [OF b(1,2,3)]
    have lt: "?i < length ?xs" and xstream: "stream (heap s ?x) = strm" and xlo: "Q \<le> size_b (heap s ?x)"
      and xhi: "size_b (heap s ?x) \<le> size_b (heap s b)"
      by simp_all
    have xin: "?x \<in> set ?xs" using lt by simp
    have xlt: "size_b (heap s ?x) < Q + kLargeBuffer"
      using xhi b(4) sum by (simp add: word_less_nat_alt word_le_nat_alt)
    have xpool: "pool (heap s ?x) = LargeBlocks"
      using own xin xs large by simp
    let ?s' = "set_blocks LargeBlocks (erase_at ?i ?xs) (upd_block ?x (\<lambda>x. x\<lparr>gc_count := 0\<rparr>) ?s1)"
    have n2: "\<not> Q + kLargeBuffer \<le> size_b (heap s ?x)" using xlt by (simp add: not_le)
    have res: "get_free_block cfg p s = (True, p\<lparr>block := Some ?x\<rparr>, ?s')"
      using lt xstream n1 n2
      by (simp add: get_free_block_def Let_def key(2) large blocks_of_def is_small_def xs1 kf same)
    have hx: "heap ?s' ?x = (heap ?s1 ?x)\<lparr>gc_count := 0\<rparr>"
      by (simp add: set_blocks_def upd_block_def is_small_def)
    have ns: "\<not> should_split cfg (heap ?s' ?x) Q"
      using n1 xpool by (simp add: hx should_split_def is_small_def same)
    have iv: "unat Q \<le> unat (size_b (heap ?s' ?x))" "unat (size_b (heap ?s' ?x)) < unat Q + unat kLargeBuffer"
      using xlo xlt sum by (simp_all add: hx same word_less_nat_alt word_le_nat_alt)
    have sm: "unat (size_b (heap ?s' ?x)) \<le> unat (size_b (heap s c))"
      if "c \<in> set ?xs" "stream (heap s c) = strm" "unat Q \<le> unat (size_b (heap s c))" for c
      using least [OF that] by (simp add: hx same word_le_nat_alt)
    have st: "stream (heap ?s' ?x) = strm"
      using xstream by (simp add: hx same)
    show ?thesis
      unfolding xs
    proof (intro exI conjI ballI impI)
      show "get_free_block cfg p s = (True, p\<lparr>block := Some ?x\<rparr>, ?s')" by (rule res)
      show "block (p\<lparr>block := Some ?x\<rparr>) = Some ?x" by simp
      show "?x \<in> set ?xs" by (rule xin)
      show "stream (heap ?s' ?x) = strm" by (rule st)
      show "unat Q \<le> unat (size_b (heap ?s' ?x))" by (rule iv(1))
      show "unat (size_b (heap ?s' ?x)) < unat Q + unat kLargeBuffer" by (rule iv(2))
      show "\<not> should_split cfg (heap ?s' ?x) Q" by (rule ns)
      show "?i < length ?xs" by (rule lt)
      show "?xs ! ?i = ?x" by (rule refl)
      show "blocks_of (get_pool Q) ?s' = erase_at ?i ?xs"
        by (simp add: large blocks_of_def is_small_def set_blocks_def)
    next
      fix c
      assume "c \<in> set ?xs" "stream (heap s c) = strm \<and> unat Q \<le> unat (size_b (heap s c))"
      then show "unat (size_b (heap ?s' ?x)) \<le> unat (size_b (heap s c))"
        using sm [of c] by simp
    qed
  qed
  have neg: "get_free_block cfg p s = (False, p, age_blocks cfg (get_pool Q) s)" if nA: "\<not> ?A"
  proof (cases "?i < length ?xs \<and> stream (heap s ?x) = strm")
    case False
    then have "?i = length ?xs \<or> stream (heap s ?x) \<noteq> strm"
      using lower_bound_le [of "heap ?s1" ?xs ?k] by auto
    then show ?thesis
      by (auto simp: get_free_block_def Let_def key(2) large blocks_of_def is_small_def xs1 kf same)
  next
    case True
    then have lt: "?i < length ?xs" and xstream: "stream (heap s ?x) = strm" by simp_all
    have xin: "?x \<in> set ?xs" using lt by simp
    have nk: "\<not> BlockComparator (heap ?s1 ?x) ?k"
      using lower_bound_not_less [OF lt] .
    have xlo: "Q \<le> size_b (heap s ?x)"
      using nk xstream by (auto simp: BlockComparator_def kf same split: if_splits)
    have "\<not> unat (size_b (heap s ?x)) < unat Q + unat kLargeBuffer"
      using nA xin xstream xlo unfolding xs by (auto simp: word_le_nat_alt)
    then have ge: "Q + kLargeBuffer \<le> size_b (heap s ?x)"
      using sum by (simp add: word_le_nat_alt)
    show ?thesis
      using lt xstream n1 ge
      by (simp add: get_free_block_def Let_def key(2) large blocks_of_def is_small_def xs1 kf same)
  qed
  from pos neg show ?thesis by blast
qed

theorem C2_oversize_reuse_witness:
  "parseMaxSplitSize 22 = Inr (m_max_split_size config_22MiB)
   \<and> m_max_split_size config_22MiB \<le> 23068672
   \<and> unat (23068672 :: size_t) + unat kLargeBuffer < 2 ^ 64
   \<and> blocks_of (get_pool 23068672) (one_cached_segment config_22MiB 41943040) = [0]
   \<and> stream (heap (one_cached_segment config_22MiB 41943040) 0) = 1
   \<and> size_b (heap (one_cached_segment config_22MiB 41943040) 0) = 41943040
   \<and> (\<exists>p' s'. get_free_block config_22MiB (malloc_params 0 23068672 1)
                   (one_cached_segment config_22MiB 41943040) = (True, p', s')
          \<and> block p' = Some 0 \<and> \<not> should_split config_22MiB (heap s' 0) 23068672)
   \<and> blocks_of (get_pool 23068672) (one_cached_segment config_22MiB 44040192) = [0]
   \<and> stream (heap (one_cached_segment config_22MiB 44040192) 0) = 1
   \<and> size_b (heap (one_cached_segment config_22MiB 44040192) 0) = 23068672 + kLargeBuffer
   \<and> get_free_block config_22MiB (malloc_params 0 23068672 1) (one_cached_segment config_22MiB 44040192)
       = (False, malloc_params 0 23068672 1,
          age_blocks config_22MiB (get_pool 23068672) (one_cached_segment config_22MiB 44040192))"
proof -
  let ?c = config_22MiB
  let ?p = "malloc_params 0 23068672 1"
  let ?s = "one_cached_segment ?c 41943040"
  let ?t = "one_cached_segment ?c 44040192"
  have lg: "get_pool (23068672 :: size_t) = LargeBlocks"
    by (simp add: get_pool_def k_defs)
  have st: "blocks_of LargeBlocks (one_cached_segment ?c n) = [0]"
    "heap (one_cached_segment ?c n) 0 = new_Block 0 1 n LargeBlocks 4096" for n
    by (simp_all add: one_cached_segment_def blocks_of_def is_small_def new_DeviceCachingAllocator_def)
  have h1: "m_max_split_size ?c = size_t_max \<or> parseMaxSplitSize 22 = Inr (m_max_split_size ?c)"
    and h1': "parseMaxSplitSize 22 = Inr (m_max_split_size ?c)"
    and h2: "m_max_split_size ?c \<le> 23068672"
    and h3: "unat (23068672 :: size_t) + unat kLargeBuffer < 2 ^ 64"
    by (simp_all add: config_22MiB_def parseMaxSplitSize_def k_defs size_t_max_def)
  have h4: "search_key ?p = key_Block 0 1 23068672 (get_pool 23068672)"
    and h5: "pool_p ?p = get_pool 23068672"
    by (simp_all add: malloc_params_def new_AllocParams_def)
  have h6: "pool_sorted (heap (one_cached_segment ?c n)) (blocks_of (get_pool 23068672) (one_cached_segment ?c n))"
    and h7: "\<forall>x \<in> set (blocks_of (get_pool 23068672) (one_cached_segment ?c n)).
               pool (heap (one_cached_segment ?c n) x) = get_pool 23068672" for n
    by (simp_all add: lg st pool_sorted_def new_Block_def)
  have f: "blocks_of (get_pool 23068672) ?s = [0]" "stream (heap ?s 0) = 1" "size_b (heap ?s 0) = 41943040"
    "blocks_of (get_pool 23068672) ?t = [0]" "stream (heap ?t 0) = 1"
    "size_b (heap ?t 0) = 23068672 + kLargeBuffer"
    by (simp_all add: lg st new_Block_def k_defs)
  have a: "\<exists>b \<in> set (blocks_of (get_pool 23068672) ?s). stream (heap ?s b) = 1
             \<and> unat (23068672 :: size_t) \<le> unat (size_b (heap ?s b))
             \<and> unat (size_b (heap ?s b)) < unat (23068672 :: size_t) + unat kLargeBuffer"
    by (simp add: f k_defs)
  have b: "\<not> (\<exists>b \<in> set (blocks_of (get_pool 23068672) ?t). stream (heap ?t b) = 1
             \<and> unat (23068672 :: size_t) \<le> unat (size_b (heap ?t b))
             \<and> unat (size_b (heap ?t b)) < unat (23068672 :: size_t) + unat kLargeBuffer)"
    by (simp add: f k_defs)
  from C2_oversize_reuse [OF h1 h2 h3 h4 h5 h6 h7, of 41943040] a
  have "\<exists>b' p' s'. get_free_block ?c ?p ?s = (True, p', s') \<and> block p' = Some b'
          \<and> b' \<in> set (blocks_of (get_pool 23068672) ?s) \<and> \<not> should_split ?c (heap s' b') 23068672"
    by blast
  then have r1: "\<exists>p' s'. get_free_block ?c ?p ?s = (True, p', s') \<and> block p' = Some 0
          \<and> \<not> should_split ?c (heap s' 0) 23068672"
    unfolding f by auto
  from C2_oversize_reuse [OF h1 h2 h3 h4 h5 h6 h7, of 44040192] b
  have r2: "get_free_block ?c ?p ?t = (False, ?p, age_blocks ?c (get_pool 23068672) ?t)"
    by blast
  show ?thesis
    using h1' h2 h3 f r1 r2 by simp
qed

text \<open>
  C2 as stated fails at the upper end of the interval: a cached block of exactly
  \<open>Q + 20 MiB\<close> (here 42 MiB for \<open>Q\<close> = 22 MiB) is on the stream and is refused.
\<close>

theorem C2_exact_upper_bound_is_refused:
  "m_max_split_size config_22MiB \<le> 23068672
   \<and> stream (heap (one_cached_segment config_22MiB 44040192) 0) = 1
   \<and> size_b (heap (one_cached_segment config_22MiB 44040192) 0) = 23068672 + kLargeBuffer
   \<and> large_blocks (one_cached_segment config_22MiB 44040192) = [0]
   \<and> fst (get_free_block config_22MiB (malloc_params 0 23068672 1) (one_cached_segment config_22MiB 44040192))
       = False"
proof -
  let ?s = "one_cached_segment config_22MiB 44040192"
  have st: "large_blocks ?s = [0]" "heap ?s 0 = new_Block 0 1 44040192 LargeBlocks 4096" "\<not> set_fraction ?s"
    by (simp_all add: one_cached_segment_def new_DeviceCachingAllocator_def)
  have ag: "age_blocks config_22MiB LargeBlocks ?s = ?s"
    by (simp add: age_blocks_def st)
  have lb: "lower_bound (heap ?s) [0] (key_Block 0 1 23068672 LargeBlocks) = 0"
    by (simp add: lower_bound_def st new_Block_def key_Block_def BlockComparator_def)
  have mx: "m_max_split_size config_22MiB = 23068672"
    by (simp add: config_22MiB_def)
  have kf: "stream (key_Block 0 1 23068672 LargeBlocks) = 1" "size_b (key_Block 0 1 23068672 LargeBlocks) = 23068672"
    by (simp_all add: key_Block_def new_Block_def)
  have hb: "stream (heap ?s 0) = 1" "size_b (heap ?s 0) = 44040192"
    by (simp_all add: st new_Block_def)
  have pk: "pool_p (malloc_params 0 23068672 1) = LargeBlocks"
    "search_key (malloc_params 0 23068672 1) = key_Block 0 1 23068672 LargeBlocks"
    by (simp_all add: malloc_params_def new_AllocParams_def get_pool_def k_defs)
  have "fst (get_free_block config_22MiB (malloc_params 0 23068672 1) ?s) = False"
    by (simp add: get_free_block_def pk blocks_of_def is_small_def ag st(1) lb Let_def mx kf hb k_defs)
  then show ?thesis
    by (simp add: st(1) hb mx k_defs)
qed

section \<open>The submission ring: indices\<close>

lemma unat_and_mask12: "unat ((v :: 32 word) AND mask 12) = unat v mod 2 ^ 12"
proof -
  have "v AND mask 12 = v mod 2 ^ 12"
    by (simp add: take_bit_eq_mod flip: take_bit_eq_mask)
  then show ?thesis
    by (simp add: unat_mod)
qed

lemma unat_next_idx: "unat ((w + 1) AND (kQueueCapacity - 1)) = (unat w + 1) mod 4096"
proof -
  have m: "(kQueueCapacity - 1 :: 32 word) = mask 12"
    by (simp add: kQueueCapacity_def mask_eq_exp_minus_1)
  have "unat ((w + 1) AND mask 12) = unat (w + 1) mod 2 ^ 12"
    by (rule unat_and_mask12)
  also have "unat (w + 1) = (unat w + 1) mod 2 ^ 32"
    by (simp add: unat_word_ariths)
  also have "(unat w + 1) mod 2 ^ 32 mod 2 ^ 12 = (unat w + 1) mod 2 ^ 12"
    by (rule mod_mod_cancel) simp
  finally show ?thesis by (simp add: m)
qed

lemma IsFullQueue_count: "ring_wf s \<Longrightarrow> IsFullQueue s \<longleftrightarrow> ring_count s = 4095"
proof -
  assume wf: "ring_wf s"
  have "IsFullQueue s \<longleftrightarrow> unat ((write_idx s + 1) AND (kQueueCapacity - 1)) = unat (read_idx s)"
    by (simp add: IsFullQueue_def word_unat_eq_iff)
  also have "\<dots> \<longleftrightarrow> (unat (write_idx s) + 1) mod 4096 = unat (read_idx s)"
    by (simp add: unat_next_idx)
  also have "\<dots> \<longleftrightarrow> ring_count s = 4095"
    using wf unfolding ring_wf_def ring_count_def
    by (auto simp: mod_if split: if_splits)
  finally show ?thesis .
qed

lemma IsEmptyQueue_count: "ring_wf s \<Longrightarrow> IsEmptyQueue s \<longleftrightarrow> ring_count s = 0"
  unfolding ring_wf_def ring_count_def IsEmptyQueue_def
  by (auto simp: mod_if word_unat_eq_iff split: if_splits)


section \<open>The submission ring: back-pressure\<close>

lemma WriteQueue_full: "IsFullQueue s \<Longrightarrow> WriteQueue mgr x s = (Inr False, s)"
  by (simp add: WriteQueue_def)

lemma WriteQueue_room:
  assumes "\<not> IsFullQueue s" "copyFunc mgr = Some cp"
  shows "WriteQueue mgr x s =
           (Inr True, s\<lparr>datas := (datas s)(unat (write_idx s) := cp x),
                        calls := calls s @ [Copy (unat (write_idx s))],
                        write_idx := (write_idx s + 1) AND (kQueueCapacity - 1)\<rparr>)"
  using assms by (simp add: WriteQueue_def)

lemma Enqueue_room:
  assumes "producer_ready mgr s" "ring_count s < 4095"
  shows "\<exists>s'. Enqueue mgr x s = Returns s' \<and> producer_ready mgr s' \<and> ring_count s' = Suc (ring_count s)"
proof -
  from assms(1) have wf: "ring_wf s" and ini: "initialized s"
    and st: "repo_status s = RUN \<or> repo_status s = INIT" and ew: "efd_write s \<noteq> None"
    by (simp_all add: producer_ready_def)
  from assms(1) obtain cp where cp: "copyFunc mgr = Some cp"
    by (auto simp: producer_ready_def)
  let ?s0 = "s\<lparr>write_working := True\<rparr>"
  have wf0: "ring_wf ?s0" using wf by (simp add: ring_wf_def)
  have cnt0: "ring_count ?s0 = ring_count s" by (simp add: ring_count_def)
  have nf: "\<not> IsFullQueue ?s0"
    using IsFullQueue_count [OF wf0] assms(2) cnt0 by simp
  let ?s1 = "?s0\<lparr>datas := (datas ?s0)(unat (write_idx ?s0) := cp x),
                 calls := calls ?s0 @ [Copy (unat (write_idx ?s0))],
                 write_idx := (write_idx ?s0 + 1) AND (kQueueCapacity - 1)\<rparr>"
  have wq: "WriteQueue mgr x ?s0 = (Inr True, ?s1)"
    using WriteQueue_room [OF nf cp] .
  have w1: "unat (write_idx ?s1) = (unat (write_idx s) + 1) mod 4096"
    by (simp add: unat_next_idx)
  have wf1: "ring_wf ?s1"
    using wf w1 by (simp add: ring_wf_def)
  have cnt1: "ring_count ?s1 = Suc (ring_count s)"
    using wf assms(2) w1 unfolding ring_count_def ring_wf_def
    by (auto simp: mod_if split: if_splits)
  have "\<exists>s'. enqueue_loop mgr x ?s0 = Returns s' \<and> read_idx s' = read_idx ?s1
           \<and> write_idx s' = write_idx ?s1 \<and> initialized s' = initialized s
           \<and> repo_status s' = repo_status s \<and> efd_write s' = efd_write s"
    by (subst enqueue_loop.simps) (auto simp: wq split: option.splits)
  then obtain s' where res: "enqueue_loop mgr x ?s0 = Returns s'"
    and same: "read_idx s' = read_idx ?s1" "write_idx s' = write_idx ?s1" "initialized s' = initialized s"
      "repo_status s' = repo_status s" "efd_write s' = efd_write s"
    by blast
  have "producer_ready mgr s'"
    using wf1 same ini st ew cp by (simp add: producer_ready_def ring_wf_def)
  moreover have "ring_count s' = Suc (ring_count s)"
    using cnt1 same by (simp add: ring_count_def)
  ultimately show ?thesis
    using res ini st by (auto simp: Enqueue_def)
qed


lemma IsFullQueue_upd [simp]:
  "IsFullQueue (s\<lparr>write_working := b\<rparr>) = IsFullQueue s"
  "IsFullQueue (s\<lparr>efd_write := c\<rparr>) = IsFullQueue s"
  by (simp_all add: IsFullQueue_def)

lemma enqueue_loop_blocks:
  assumes "IsFullQueue s" "efd_write s = Some 0"
  shows "blocked_on (enqueue_loop mgr x s) = Some Efd_write"
  using assms by (subst enqueue_loop.simps) (simp add: WriteQueue_full Let_def)

lemma Enqueue_full:
  assumes "producer_ready mgr s" "ring_count s = 4095"
  shows "blocked_on (Enqueue mgr x s) = Some Efd_write"
proof -
  from assms(1) have wf: "ring_wf s" and ini: "initialized s"
    and st: "repo_status s = RUN \<or> repo_status s = INIT"
    by (simp_all add: producer_ready_def)
  from assms(1) obtain c where ew: "efd_write s = Some c"
    by (auto simp: producer_ready_def)
  have full: "IsFullQueue s"
    using IsFullQueue_count [OF wf] assms(2) by simp
  have wq: "WriteQueue mgr x (s\<lparr>write_working := True\<rparr>) = (Inr False, s\<lparr>write_working := True\<rparr>)"
    by (rule WriteQueue_full) (simp add: full)
  have "blocked_on (enqueue_loop mgr x (s\<lparr>write_working := True\<rparr>)) = Some Efd_write"
  proof (cases "c = 0")
    case True
    then show ?thesis
      using ew full by (intro enqueue_loop_blocks) simp_all
  next
    case False
    have "blocked_on (enqueue_loop mgr x (s\<lparr>write_working := False, efd_write := Some 0, write_working := True\<rparr>))
            = Some Efd_write"
      using full by (intro enqueue_loop_blocks) simp_all
    then show ?thesis
      apply (subst enqueue_loop.simps)
      using ew False apply (simp add: wq full Let_def)
      done
  qed
  then show ?thesis
    using ini st by (auto simp: Enqueue_def)
qed

lemma Enqueue_all_room:
  "producer_ready mgr s \<Longrightarrow> ring_count s + length xs \<le> 4095 \<Longrightarrow>
     \<exists>s'. Enqueue_all mgr xs s = Returns s' \<and> producer_ready mgr s'
          \<and> ring_count s' = ring_count s + length xs"
proof (induction xs arbitrary: s)
  case Nil
  then show ?case by simp
next
  case (Cons x xs)
  from Cons.prems have "ring_count s < 4095" by simp
  from Enqueue_room [OF Cons.prems(1) this, of x] obtain s1 where
    s1: "Enqueue mgr x s = Returns s1" "producer_ready mgr s1" "ring_count s1 = Suc (ring_count s)"
    by blast
  from Cons.prems s1 have "ring_count s1 + length xs \<le> 4095" by simp
  from Cons.IH [OF s1(2) this] s1 show ?case by auto
qed

lemma Enqueue_all_append:
  "Enqueue_all mgr xs s = Returns s' \<Longrightarrow> Enqueue_all mgr (xs @ ys) s = Enqueue_all mgr ys s'"
  by (induction xs arbitrary: s) (auto split: ending.splits)

lemma Enqueue_all_blocks:
  assumes "producer_ready mgr s" and "IsEmptyQueue s" and "length xs = 4095"
  shows "blocked_on (Enqueue_all mgr (xs @ [x]) s) = Some Efd_write"
proof -
  from assms have wf: "ring_wf s" by (simp add: producer_ready_def)
  have c0: "ring_count s = 0"
    using IsEmptyQueue_count [OF wf] assms(2) by simp
  from Enqueue_all_room [OF assms(1), of xs] assms(3) c0
  obtain s' where s': "Enqueue_all mgr xs s = Returns s'" "producer_ready mgr s'" "ring_count s' = 4095"
    by auto
  have "Enqueue_all mgr (xs @ [x]) s = Enqueue_all mgr [x] s'"
    using Enqueue_all_append [OF s'(1)] .
  moreover have "blocked_on (Enqueue mgr x s') = Some Efd_write"
    using Enqueue_full [OF s'(2,3)] .
  ultimately show ?thesis
    by (auto split: ending.splits)
qed

lemma InitRepo_ready: "producer_ready parity_callbacks (InitRepo 0) \<and> IsEmptyQueue (InitRepo (0::nat))"
  by (simp add: producer_ready_def parity_callbacks_def InitRepo_def ring_wf_def IsEmptyQueue_def)

text \<open>
  C4, as the code has it. The full-test keeps one slot free: starting from an empty
  ring, with no consumer running, each of the first 4095 calls of \<open>Enqueue\<close> returns, the
  ring is full exactly after the 4095th, and the 4096th call sleeps on \<open>efd_write\<close>.
\<close>

theorem C4_ring_accepts_4095:
  assumes "producer_ready mgr s" and "IsEmptyQueue s"
  shows "(length xs \<le> 4095 \<longrightarrow>
            (\<exists>s'. Enqueue_all mgr xs s = Returns s' \<and> (IsFullQueue s' \<longleftrightarrow> length xs = 4095)))
         \<and> (length xs = 4095 \<longrightarrow> blocked_on (Enqueue_all mgr (xs @ [x]) s) = Some Efd_write)"
proof -
  from assms have wf: "ring_wf s" by (simp add: producer_ready_def)
  have c0: "ring_count s = 0"
    using IsEmptyQueue_count [OF wf] assms(2) by simp
  have room: "\<exists>s'. Enqueue_all mgr xs s = Returns s' \<and> producer_ready mgr s' \<and> ring_count s' = length xs"
    if "length xs \<le> 4095"
    using Enqueue_all_room [OF assms(1), of xs] that c0 by simp
  have first: "\<exists>s'. Enqueue_all mgr xs s = Returns s' \<and> (IsFullQueue s' \<longleftrightarrow> length xs = 4095)"
    if le: "length xs \<le> 4095"
  proof -
    from room [OF le] obtain s' where s': "Enqueue_all mgr xs s = Returns s'" "producer_ready mgr s'"
      "ring_count s' = length xs" by blast
    from s'(2) have "ring_wf s'" by (simp add: producer_ready_def)
    from IsFullQueue_count [OF this] s' show ?thesis by auto
  qed
  have last: "blocked_on (Enqueue_all mgr (xs @ [x]) s) = Some Efd_write" if eq: "length xs = 4095"
    using Enqueue_all_blocks [OF assms eq] .
  from first last show ?thesis by blast
qed


theorem C4_ring_accepts_4095_witness:
  "producer_ready parity_callbacks (InitRepo 0) \<and> IsEmptyQueue (InitRepo (0::nat))
   \<and> length (replicate 4095 (0::nat)) = 4095
   \<and> blocked_on (Enqueue_all parity_callbacks (replicate 4095 0 @ [0]) (InitRepo 0)) = Some Efd_write"
  using C4_ring_accepts_4095 [of parity_callbacks "InitRepo 0" "replicate 4095 0" 0] InitRepo_ready
  by simp

text \<open>
  C4 as stated fails: of 4096 calls on the empty ring, one does not return but sleeps
  on \<open>efd_write\<close>.
\<close>

theorem C4_4096th_enqueue_blocks:
  "blocked_on (Enqueue_all parity_callbacks (replicate 4095 0 @ [0]) (InitRepo 0)) = Some Efd_write"
  using InitRepo_ready by (intro Enqueue_all_blocks) simp_all

section \<open>The submission ring: a failed launch\<close>

lemma drain_releases:
  "ring_wf s \<Longrightarrow> releaseFunc mgr \<Longrightarrow> ring_count s = n \<Longrightarrow>
     drain mgr s = Some (Inr (), s\<lparr>calls := calls s @ map Release (ring_slots (unat (read_idx s)) n),
                                  read_idx := write_idx s\<rparr>)"
proof (induction n arbitrary: s)
  case 0
  then have "IsEmptyQueue s"
    using IsEmptyQueue_count by blast
  then show ?case
    by (subst drain.simps) (simp add: IsEmptyQueue_def)
next
  case (Suc n)
  then have ne: "\<not> IsEmptyQueue s"
    using IsEmptyQueue_count by fastforce
  let ?s1 = "s\<lparr>calls := calls s @ [Release (unat (read_idx s))],
               read_idx := (read_idx s + 1) AND (kQueueCapacity - 1)\<rparr>"
  have r1: "unat (read_idx ?s1) = (unat (read_idx s) + 1) mod 4096"
    by (simp add: unat_next_idx)
  have wf1: "ring_wf ?s1"
    using Suc.prems(1) r1 by (simp add: ring_wf_def)
  have cnt1: "ring_count ?s1 = n"
    using Suc.prems(1,3) r1 unfolding ring_count_def ring_wf_def
    by (auto simp: mod_if split: if_splits)
  have "drain mgr s = drain mgr ?s1"
    using ne Suc.prems(2) by (subst drain.simps) simp
  also have "\<dots> = Some (Inr (), ?s1\<lparr>calls := calls ?s1 @ map Release (ring_slots (unat (read_idx ?s1)) n),
                                    read_idx := write_idx ?s1\<rparr>)"
    by (rule Suc.IH [OF wf1 Suc.prems(2) cnt1])
  finally show ?case
    by (simp add: unat_next_idx)
qed

text \<open>
  C5. When the execute callback returns non-zero on the record at the read index,
  \<open>ReadQueue\<close> calls the release callback on every record the ring holds, from the
  failed one up to the write index, and the execute callback on none of them; the ring
  is then empty, the buffer is deleted and the three eventfds are closed, and the call
  raises.
\<close>

theorem C5_failed_launch_drains:
  assumes "ring_wf s" and "\<not> IsEmptyQueue s"
    and "execFunc mgr = Some ex" and "ex (datas s (unat (read_idx s))) \<noteq> 0"
    and "releaseFunc mgr" and "deleteFunc mgr"
  shows "ReadQueue mgr s =
           Some (Inl KernelFailure,
                 s\<lparr>calls := calls s @ Exec (unat (read_idx s))
                                # map Release (ring_slots (unat (read_idx s)) (ring_count s)) @ [Delete],
                   read_idx := write_idx s, efd_read := None, efd_write := None, efd_empty := None\<rparr>)"
proof -
  let ?s1 = "s\<lparr>calls := calls s @ [Exec (unat (read_idx s))]\<rparr>"
  have wf1: "ring_wf ?s1" using assms(1) by (simp add: ring_wf_def)
  have cnt1: "ring_count ?s1 = ring_count s" by (simp add: ring_count_def)
  have d: "drain mgr ?s1 =
             Some (Inr (), ?s1\<lparr>calls := calls ?s1 @ map Release (ring_slots (unat (read_idx ?s1)) (ring_count s)),
                              read_idx := write_idx ?s1\<rparr>)"
    by (rule drain_releases [OF wf1 assms(5) cnt1])
  show ?thesis
    using assms(2,3,4,6) by (simp add: ReadQueue_def Let_def d ReleaseResource_def)
qed

theorem C5_failed_launch_drains_witness:
  "ring_wf wrapped_ring \<and> \<not> IsEmptyQueue wrapped_ring
   \<and> execFunc parity_callbacks = Some (\<lambda>x. int (x mod 2))
   \<and> int (datas wrapped_ring (unat (read_idx wrapped_ring)) mod 2) \<noteq> 0
   \<and> releaseFunc parity_callbacks \<and> deleteFunc parity_callbacks
   \<and> ReadQueue parity_callbacks wrapped_ring =
        Some (Inl KernelFailure,
              wrapped_ring\<lparr>calls := [Exec 4094, Release 4094, Release 4095, Release 0, Delete],
                           read_idx := 1, efd_read := None, efd_write := None, efd_empty := None\<rparr>)"
proof -
  have h: "ring_wf wrapped_ring" "\<not> IsEmptyQueue wrapped_ring"
    "execFunc parity_callbacks = Some (\<lambda>x. int (x mod 2))"
    "int (datas wrapped_ring (unat (read_idx wrapped_ring)) mod 2) \<noteq> 0"
    "releaseFunc parity_callbacks" "deleteFunc parity_callbacks"
    by (simp_all add: wrapped_ring_def InitRepo_def parity_callbacks_def ring_wf_def IsEmptyQueue_def)
  have c: "ring_count wrapped_ring = 3" "unat (read_idx wrapped_ring) = 4094" "calls wrapped_ring = []"
    "write_idx wrapped_ring = 1"
    by (simp_all add: wrapped_ring_def InitRepo_def ring_count_def)
  have sl: "ring_slots 4094 3 = [4094, 4095, 0]"
    unfolding numeral_3_eq_3 by simp
  show ?thesis
    using h C5_failed_launch_drains [OF h] by (simp add: c sl)
qed

section \<open>Pointers the allocator did not issue\<close>

text \<open>
  C6, as the code has it. A pointer that is not in \<open>allocated_blocks\<close> makes
  \<open>get_base_allocation\<close> raise \<open>invalid device pointer\<close>; when it is not null it makes
  \<open>raw_delete\<close> and \<open>erase_stream\<close> raise the same error, and the allocator is left as it
  was.
\<close>

theorem C6_invalid_device_pointer:
  assumes "allocated_blocks t p = None"
  shows "get_base_allocation p outSize t = Some (Inl (InvalidDevicePointer p))
         \<and> (p \<noteq> 0 \<longrightarrow>
              raw_delete cfg p t = (Inl (InvalidDevicePointer p), t)
              \<and> erase_stream \<lparr>get = p, deleter_is_raw_delete = dl\<rparr> strm t = (Inl (InvalidDevicePointer p), t))"
  using assms
  by (simp add: get_base_allocation_def THN_getBaseAllocation_def raw_delete_def THN_free_def
      erase_stream_def THN_eraseStream_def get_allocated_block_def)

theorem C6_invalid_device_pointer_witness:
  "allocated_blocks (THN_init default_config 1) 4096 = None
   \<and> get_base_allocation 4096 True (THN_init default_config 1) = Some (Inl (InvalidDevicePointer 4096))
   \<and> raw_delete default_config 4096 (THN_init default_config 1)
        = (Inl (InvalidDevicePointer 4096), THN_init default_config 1)
   \<and> erase_stream \<lparr>get = 4096, deleter_is_raw_delete = True\<rparr> (NPUStream 0 1) (THN_init default_config 1)
        = (Inl (InvalidDevicePointer 4096), THN_init default_config 1)"
proof -
  have h: "allocated_blocks (THN_init default_config 1) 4096 = None"
    by (simp add: THN_init_def)
  show ?thesis
    using h C6_invalid_device_pointer [OF h, of True default_config True "NPUStream 0 1"]
    by simp
qed

text \<open>
  C6 as stated fails at the null pointer, which the allocator never issued: \<open>raw_delete\<close>
  and \<open>erase_stream\<close> return without raising.
\<close>

theorem C6_null_pointer_is_accepted:
  "allocated_blocks (THN_init default_config 1) 0 = None
   \<and> fst (raw_delete default_config 0 (THN_init default_config 1)) = Inr ()
   \<and> fst (erase_stream \<lparr>get = 0, deleter_is_raw_delete = True\<rparr> (NPUStream 0 1) (THN_init default_config 1)) = Inr ()"
  by (simp add: THN_init_def raw_delete_def THN_free_def erase_stream_def THN_eraseStream_def)

section \<open>Splitting a new segment\<close>

lemma process_events_none: "npu_events s = [] \<Longrightarrow> process_events d s = (Inr (), s)"
  by (simp add: process_events_def)

lemma get_free_block_empty:
  "blocks_of (pool_p p) s = [] \<Longrightarrow> get_free_block cfg p s = (False, p, s)"
  by (simp add: get_free_block_def age_blocks_def lower_bound_def Let_def)

lemma malloc_fresh:
  assumes "npu_events s = []" and "blocks_of (get_pool (round_size n)) s = []"
    and "\<not> callbacks_result d (length (trace s))" and "\<not> set_fraction s"
    and "alloc_block d cfg (malloc_params dev (round_size n) strm) False (log_call FreeMemoryCallbacks s)
           = (True, p', s')"
  shows "malloc d cfg dev n strm s = malloc_finish cfg dev strm (round_size n) (get_pool (round_size n)) p' s'"
proof -
  have pp: "pool_p (malloc_params dev (round_size n) strm) = get_pool (round_size n)"
    by (simp add: malloc_params_def new_AllocParams_def)
  have g: "get_free_block cfg (malloc_params dev (round_size n) strm) s
             = (False, malloc_params dev (round_size n) strm, s)"
    by (rule get_free_block_empty) (simp add: pp assms(2))
  have sf: "\<not> set_fraction (log_call FreeMemoryCallbacks s)"
    using assms(4) by simp
  show ?thesis
    using assms(3,5) sf
    by (simp add: malloc_def process_events_none [OF assms(1)] g trigger_free_memory_callbacks_def
        malloc_new_block_def Let_def)
qed

lemma alloc_block_granted:
  assumes "\<not> set_fraction s" and "malloc_result d (length (trace s)) (alloc_size p) = (ACL_ERROR_NONE, addr)"
  shows "\<exists>p' s'. alloc_block d cfg p False s = (True, p', s')
           \<and> block p' = Some (next_block s) \<and> stat_types p' = stat_types p
           \<and> heap s' = (heap s)(next_block s := new_Block (device (search_key p)) (stream (search_key p))
                                                  (alloc_size p) (pool_p p) addr)
           \<and> next_block s' = Suc (next_block s)
           \<and> large_blocks s' = large_blocks s \<and> small_blocks s' = small_blocks s
           \<and> trace s' = trace s @ [AclrtMallocAlign32 (alloc_size p)]
           \<and> allocation (stats s') = allocation (stats s)"
  using assms
  by (simp add: alloc_block_def Let_def for_each_selected_stat_type_def all_stat_types_def)

lemma malloc_finish_splits:
  assumes "block p = Some b" and "should_split cfg (heap s b) sz" and "prev_b (heap s b) = None"
    and "b \<noteq> next_block s" and "blocks_of pl s = []"
  shows "\<exists>s'. malloc_finish cfg dev strm sz pl p s = (Inr (next_block s), s')
           \<and> heap s' (next_block s) = (new_Block dev strm sz pl (ptr (heap s b)))\<lparr>next_b := Some b, allocated_b := True\<rparr>
           \<and> heap s' b = (heap s b)\<lparr>prev_b := Some (next_block s), ptr := ptr (heap s b) + sz,
                                    size_b := size_b (heap s b) - sz\<rparr>
           \<and> blocks_of pl s' = [b] \<and> trace s' = trace s"
proof -
  obtain r s1 where sp: "split_block dev strm sz pl (stat_types p) (is_split (heap s b)) b s = (r, s1)"
    by (cases "split_block dev strm sz pl (stat_types p) (is_split (heap s b)) b s")
  have v: "r = next_block s"
    "heap s1 (next_block s) = (new_Block dev strm sz pl (ptr (heap s b)))\<lparr>next_b := Some b\<rparr>"
    "heap s1 b = (heap s b)\<lparr>prev_b := Some (next_block s), ptr := ptr (heap s b) + sz,
                             size_b := size_b (heap s b) - sz\<rparr>"
    "blocks_of pl s1 = [b]" "trace s1 = trace s"
    using sp assms(3,4,5)
    by (auto simp: split_block_def Let_def new_Block_def)
  show ?thesis
    using assms(1,2,4) v
    by (simp add: malloc_finish_def Let_def sp)
qed

text \<open>
  C3 fails on the code. Configured with \<open>max_split_size_mb:22\<close>, a fresh allocator is asked
  for 21495776 bytes, which round to 20.5 MiB: below \<open>max_split_size\<close>. No cached block
  exists, so the driver is asked for a segment of 22 MiB, which is at least
  \<open>max_split_size\<close>; \<open>malloc\<close> then splits that segment into the block it returns and a
  remainder of 1.5 MiB that goes to the large pool.
\<close>

theorem C3_oversize_segment_is_split:
  "fst (malloc granting_driver config_22MiB 0 21495776 1 (new_DeviceCachingAllocator config_22MiB)) = Inr 1
   \<and> trace (snd (malloc granting_driver config_22MiB 0 21495776 1 (new_DeviceCachingAllocator config_22MiB)))
       = [FreeMemoryCallbacks, AclrtMallocAlign32 23068672]
   \<and> parseMaxSplitSize 22 = Inr (m_max_split_size config_22MiB)
   \<and> m_max_split_size config_22MiB \<le> 23068672
   \<and> large_blocks (snd (malloc granting_driver config_22MiB 0 21495776 1 (new_DeviceCachingAllocator config_22MiB)))
       = [0]
   \<and> heap (snd (malloc granting_driver config_22MiB 0 21495776 1 (new_DeviceCachingAllocator config_22MiB))) 0
       = (new_Block 0 1 1572864 LargeBlocks 21499904)\<lparr>prev_b := Some 1\<rparr>
   \<and> heap (snd (malloc granting_driver config_22MiB 0 21495776 1 (new_DeviceCachingAllocator config_22MiB))) 1
       = (new_Block 0 1 21495808 LargeBlocks 4096)\<lparr>next_b := Some 0, allocated_b := True\<rparr>"
proof -
  let ?s0 = "new_DeviceCachingAllocator config_22MiB"
  let ?d = granting_driver
  have rs: "round_size 21495776 = 21495808"
    by (simp add: round_size_def k_defs)
  have gp: "get_pool (21495808 :: size_t) = LargeBlocks"
    by (simp add: get_pool_def k_defs)
  have ga: "get_allocation_size (21495808 :: size_t) = 23068672"
    by (simp add: get_allocation_size_def k_defs)
  let ?p = "malloc_params 0 21495808 1"
  have pf: "alloc_size ?p = 23068672" "pool_p ?p = LargeBlocks" "device (search_key ?p) = 0"
    "stream (search_key ?p) = 1"
    by (simp_all add: malloc_params_def new_AllocParams_def gp ga key_Block_def new_Block_def)
  let ?s1 = "log_call FreeMemoryCallbacks ?s0"
  have g: "malloc_result ?d (length (trace ?s1)) (alloc_size ?p) = (ACL_ERROR_NONE, 4096)"
    by (simp add: granting_driver_def)
  from alloc_block_granted [of ?s1 ?d ?p 4096 config_22MiB, OF _ g]
  obtain p' s' where ab: "alloc_block ?d config_22MiB ?p False ?s1 = (True, p', s')"
    and p': "block p' = Some 0"
    and s': "heap s' = (heap ?s1)(0 := new_Block 0 1 23068672 LargeBlocks 4096)" "next_block s' = 1"
      "large_blocks s' = []" "trace s' = [FreeMemoryCallbacks, AclrtMallocAlign32 23068672]"
    by (auto simp: pf)
  have m: "malloc ?d config_22MiB 0 21495776 1 ?s0 = malloc_finish config_22MiB 0 1 21495808 LargeBlocks p' s'"
    using malloc_fresh [of ?s0 21495776 ?d config_22MiB 0 1 p' s'] ab
    by (simp add: rs gp granting_driver_def)
  have sp: "should_split config_22MiB (heap s' 0) 21495808"
    by (simp add: s' should_split_def new_Block_def is_small_def config_22MiB_def k_defs)
  have "\<exists>s''. malloc_finish config_22MiB 0 1 21495808 LargeBlocks p' s' = (Inr (next_block s'), s'')
           \<and> heap s'' (next_block s') = (new_Block 0 1 21495808 LargeBlocks (ptr (heap s' 0)))\<lparr>next_b := Some 0, allocated_b := True\<rparr>
           \<and> heap s'' 0 = (heap s' 0)\<lparr>prev_b := Some (next_block s'), ptr := ptr (heap s' 0) + 21495808,
                                    size_b := size_b (heap s' 0) - 21495808\<rparr>
           \<and> blocks_of LargeBlocks s'' = [0] \<and> trace s'' = trace s'"
    by (rule malloc_finish_splits [OF p' sp]) (simp_all add: s' new_Block_def blocks_of_def is_small_def)
  then obtain s'' where fin: "malloc_finish config_22MiB 0 1 21495808 LargeBlocks p' s' = (Inr 1, s'')"
    and s'': "heap s'' 1 = (new_Block 0 1 21495808 LargeBlocks 4096)\<lparr>next_b := Some 0, allocated_b := True\<rparr>"
      "heap s'' 0 = (new_Block 0 1 1572864 LargeBlocks 21499904)\<lparr>prev_b := Some 1\<rparr>"
      "large_blocks s'' = [0]" "trace s'' = [FreeMemoryCallbacks, AclrtMallocAlign32 23068672]"
    by (auto simp: s' new_Block_def blocks_of_def is_small_def)
  have mx: "m_max_split_size config_22MiB \<le> 23068672"
    "parseMaxSplitSize 22 = Inr (m_max_split_size config_22MiB)"
    by (simp_all add: config_22MiB_def parseMaxSplitSize_def k_defs size_t_max_def)
  show ?thesis
    using fin s'' mx by (simp add: m)
qed

section \<open>Garbage collection and the device\<close>

lemma release_block_trace:
  "trace (release_block d cfg b s) = trace s @ [AclrtFree (ptr (heap s b))]"
  by (simp add: release_block_def Let_def)

text \<open>
  C1 fails on the code. With the memory fraction set and 60 MiB allocated against a
  threshold of 50 MiB, \<open>garbage_collect_cached_blocks\<close> finds one unsplit block in the
  large pool; before it releases that block it calls \<open>npuSynchronizeDevice\<close>.
\<close>

theorem C1_gc_synchronizes_device:
  "set_fraction over_threshold \<and> m_garbage_collection_threshold config_gc_half > 0
   \<and> trace over_threshold = [AclrtMallocAlign32 62914560]
   \<and> trace (garbage_collect_cached_blocks granting_driver config_gc_half over_threshold)
       = [AclrtMallocAlign32 62914560, NpuSynchronizeDevice True, AclrtFree 4096]"
proof -
  let ?s = over_threshold
  let ?c = config_gc_half
  let ?d = granting_driver
  have f: "set_fraction ?s" "allowed_memory_maximum ?s = 104857600" "total_allocated_memory ?s = 62914560"
    "large_blocks ?s = [0]" "heap ?s 0 = new_Block 0 1 62914560 LargeBlocks 4096"
    "trace ?s = [AclrtMallocAlign32 62914560]"
    by (simp_all add: over_threshold_def one_cached_segment_def new_DeviceCachingAllocator_def)
  have c: "m_garbage_collection_threshold ?c = 1 / 2"
    by (simp add: config_gc_half_def)
  have th: "cast_size_t (to_double (m_garbage_collection_threshold ?c
                                      * to_double (real (unat (allowed_memory_maximum ?s))))) = 52428800"
    using to_double_exact [of 104857600] to_double_exact [of 52428800]
    by (simp add: c f cast_size_t_def)
  let ?s1 = "log_call (NpuSynchronizeDevice True) ?s"
  have stop: "gc_loop ?d ?c 10485760 (True, 62914560, 0, 0, release_block ?d ?c 0 ?s1) = release_block ?d ?c 0 ?s1"
    by (subst gc_loop.simps) simp
  have lp: "gc_loop ?d ?c 10485760 (True, 0, 0, 1, ?s1) = release_block ?d ?c 0 ?s1"
    by (subst gc_loop.simps) (simp add: f(4,5) new_Block_def is_split_def stop)
  have gc: "garbage_collect_cached_blocks ?d ?c ?s = release_block ?d ?c 0 ?s1"
    using th lp
    by (simp add: garbage_collect_cached_blocks_def f(3,4,5) Let_def new_Block_def is_split_def)
  show ?thesis
    by (simp add: gc release_block_trace f c new_Block_def)
qed

section \<open>The destination of the in-place xlogy kernel\<close>

text \<open>
  C9. In the Tensor-Scalar overload of \<open>xlogy_\<close>, when \<open>self\<close> fails the contiguity
  check, exactly one kernel is launched, and its output is the local \<open>result\<close> named in
  its own initialiser: storage that has not been constructed. The same storage is then
  handed to \<open>format_fresh_view\<close>. (The Tensor-Tensor overload passes \<open>contiguousSelf\<close> in
  that place.)
\<close>

theorem C9_xlogy_scalar_writes_unconstructed:
  assumes "\<not> check_match utils self"
  shows "xlogy_inplace_scalar utils self other =
           [Run \<lparr>Name = ''Xlogy'',
                 Inputs = [TensorInput (format_contiguous utils self), ScalarInput other (format_contiguous utils self)],
                 Outputs = [Unconstructed ''result'']\<rparr>,
            format_fresh_view self (Unconstructed ''result'')]"
  using assms
  by (simp add: xlogy_inplace_scalar_def declare_init_def xlogy_out_npu_nocheck_scalar_def Let_def)

theorem C9_xlogy_scalar_writes_unconstructed_witness:
  "\<not> check_match strided_utils (Tensor 0)
   \<and> xlogy_inplace_scalar strided_utils (Tensor 0) (2 :: int) =
        [Run \<lparr>Name = ''Xlogy'', Inputs = [TensorInput (Tensor 1), ScalarInput 2 (Tensor 1)],
              Outputs = [Unconstructed ''result'']\<rparr>,
         format_fresh_view (Tensor 0) (Unconstructed ''result'')]"
proof -
  have h: "\<not> check_match strided_utils (Tensor 0)"
    by (simp add: strided_utils_def)
  show ?thesis
    using h C9_xlogy_scalar_writes_unconstructed [OF h, of "2 :: int"]
    by (simp add: strided_utils_def)
qed

section \<open>Coherence of the statistics\<close>















lemma proper_select [simp]: "proper (select_stat_types no_stat_types pl)"
  by (simp add: proper_def select_stat_types_def no_stat_types_def get_stat_type_for_pool_def)
































































text \<open>
  Why the pool sums of \<open>segment\<close> and \<open>reserved_bytes\<close> need \<open>reads_false\<close>: when the entry
  of \<open>StatTypes\<close> that \<open>release_block\<close> never wrote reads \<open>true\<close>, releasing a block of the
  large pool also updates the statistics of the small pool.
\<close>

lemma release_block_other_pool:
  assumes "indeterminate d (Suc (length (trace s))) SMALL_POOL" and "pool (heap s b) = LargeBlocks"
  shows "segment (stats (release_block d cfg b s)) SMALL_POOL = update_stat (segment (stats s) SMALL_POOL) (- 1)"
  using assms
  by (simp add: release_block_def Let_def select_stat_types_def get_stat_type_for_pool_def is_small_def
      for_each_selected_stat_type_def all_stat_types_def bump_def)




end
